theory Spec2Isabelle
  imports Main "HOL-Library.Word"
begin

unbundle bit_operations_syntax

section \<open>JavaScript values\<close>

text \<open>
  The emulator computes with JavaScript numbers that hold small integers. They are
  modelled as \<^typ>\<open>int\<close>; the operators \<^verbatim>\<open>&\<close>, \<^verbatim>\<open>|\<close>, \<^verbatim>\<open>^\<close>, \<^verbatim>\<open><<\<close>
  and \<^verbatim>\<open>>>\<close> are \<open>AND\<close>, \<open>OR\<close>, \<open>XOR\<close>, \<open>push_bit\<close> and \<open>drop_bit\<close> on two's
  complement integers, which agree with the 32-bit operators of JavaScript on every
  value that fits 32 bits. A store into a typed array wraps the value to the element
  width and ignores an index outside the array; a read outside an array yields
  \<^verbatim>\<open>undefined\<close>, modelled by \<open>None\<close>.
\<close>

definition js_index :: "int list \<Rightarrow> int \<Rightarrow> int option" where
  "js_index xs i = (if 0 \<le> i \<and> i < int (length xs) then Some (xs ! nat i) else None)"

definition typed_store :: "int \<Rightarrow> int list \<Rightarrow> int \<Rightarrow> int \<Rightarrow> int list" where
  "typed_store m xs i v = (if 0 \<le> i \<and> i < int (length xs) then xs[nat i := v mod m] else xs)"

abbreviation u8_store :: "int list \<Rightarrow> int \<Rightarrow> int \<Rightarrow> int list" where
  "u8_store \<equiv> typed_store 0x100"

abbreviation u32_store :: "int list \<Rightarrow> int \<Rightarrow> int \<Rightarrow> int list" where
  "u32_store \<equiv> typed_store 0x100000000"

text \<open>\<^verbatim>\<open>undefined\<close> used as an operand of a bitwise operator counts as 0.\<close>

definition js_num :: "int option \<Rightarrow> int" where
  "js_num v = (case v of Some n \<Rightarrow> n | None \<Rightarrow> 0)"

text \<open>\<^verbatim>\<open>1 << n\<close>: the shift count is taken modulo 32 and the result is a signed 32-bit value.\<close>

definition js_shl1 :: "nat \<Rightarrow> int" where
  "js_shl1 n = (if n mod 32 = 31 then - (2 ^ 31) else push_bit (n mod 32) 1)"

section \<open>The pending-interrupt latch of the CPU\<close>

text \<open>
  \<^verbatim>\<open>CPU.irqRequested\<close> and \<^verbatim>\<open>CPU.irqType\<close> form the single pending-interrupt slot.
  The record is extended by the full CPU state below, so \<^verbatim>\<open>requestIrq\<close> and
  \<^verbatim>\<open>clearIrq\<close> apply both to the slot alone (as a mapper sees the CPU) and to the CPU.
\<close>

record irq_state =
  irqRequested :: bool
  irqType :: int

definition IRQ_NORMAL :: int where "IRQ_NORMAL = 0"
definition IRQ_NMI :: int where "IRQ_NMI = 1"
definition IRQ_RESET :: int where "IRQ_RESET = 2"

definition CPU_requestIrq :: "int \<Rightarrow> 'a irq_state_scheme \<Rightarrow> 'a irq_state_scheme" where
  "CPU_requestIrq type c =
     (if irqRequested c \<and> type = IRQ_NORMAL then c
      else c\<lparr>irqRequested := True, irqType := type\<rparr>)"

definition CPU_clearIrq :: "int \<Rightarrow> 'a irq_state_scheme \<Rightarrow> 'a irq_state_scheme" where
  "CPU_clearIrq type c =
     (if irqRequested c \<and> irqType c = type then c\<lparr>irqRequested := False\<rparr> else c)"

section \<open>Controller (controller.js)\<close>

record controller =
  currentState :: int
  strobedState :: int
  strobeByte :: int
  shiftRegister :: int

definition Controller_new :: controller where
  "Controller_new = \<lparr>currentState = 0, strobedState = 0, strobeByte = 0, shiftRegister = 0\<rparr>"

text \<open>
  \<^verbatim>\<open>read()\<close> assigns no field of the controller: it is a function of the state alone.
\<close>

definition Controller_read :: "controller \<Rightarrow> int" where
  "Controller_read c =
     (let ret = (if strobeByte c = 1 then currentState c AND 1
                 else if shiftRegister c < 8
                      then drop_bit (nat (shiftRegister c)) (strobedState c) AND 1
                      else 1)
      in 0x40 OR ret)"

definition Controller_clock :: "controller \<Rightarrow> controller" where
  "Controller_clock c =
     (if strobeByte c = 0 \<and> shiftRegister c < 8
      then c\<lparr>shiftRegister := shiftRegister c + 1\<rparr> else c)"

definition Controller_strobe :: "int \<Rightarrow> controller \<Rightarrow> controller" where
  "Controller_strobe data c =
     (let c1 = (if strobeByte c = 1 \<and> data AND 1 = 0
                then c\<lparr>strobedState := currentState c, shiftRegister := 0\<rparr> else c)
      in c1\<lparr>strobeByte := data AND 1\<rparr>)"

definition Controller_getDuplicateMask :: "nat \<Rightarrow> int" where
  "Controller_getDuplicateMask buttonIndex =
     (if buttonIndex = 4 then 0xDF
      else if buttonIndex = 5 then 0xEF
      else if buttonIndex = 6 then 0x7F
      else if buttonIndex = 7 then 0xBF
      else 0xFF)"

definition Controller_buttonDown :: "nat \<Rightarrow> controller \<Rightarrow> controller" where
  "Controller_buttonDown button c =
     (let c1 = c\<lparr>currentState := currentState c OR js_shl1 button\<rparr>
      in c1\<lparr>currentState := currentState c1 AND Controller_getDuplicateMask button\<rparr>)"

definition Controller_buttonUp :: "nat \<Rightarrow> controller \<Rightarrow> controller" where
  "Controller_buttonUp button c =
     c\<lparr>currentState := currentState c AND (0xFF XOR js_shl1 button)\<rparr>"

text \<open>
  Sequences of calls. A host input is a \<^verbatim>\<open>buttonDown\<close> or a \<^verbatim>\<open>buttonUp\<close> with a
  button index; \<open>run_calls\<close> performs them in order. \<open>serial_reads n c\<close> is the list of
  bytes returned by \<open>n\<close> reads of the port, each followed by the \<^verbatim>\<open>clock()\<close> that
  the CPU issues at the end of the instruction that read.
\<close>

datatype button_call = ButtonDown nat | ButtonUp nat

fun apply_call :: "controller \<Rightarrow> button_call \<Rightarrow> controller" where
  "apply_call c (ButtonDown b) = Controller_buttonDown b c"
| "apply_call c (ButtonUp b) = Controller_buttonUp b c"

fun call_button :: "button_call \<Rightarrow> nat" where
  "call_button (ButtonDown b) = b"
| "call_button (ButtonUp b) = b"

definition run_calls :: "button_call list \<Rightarrow> controller \<Rightarrow> controller" where
  "run_calls cs c = foldl apply_call c cs"

fun serial_reads :: "nat \<Rightarrow> controller \<Rightarrow> int list" where
  "serial_reads 0 c = []"
| "serial_reads (Suc n) c = Controller_read c # serial_reads n (Controller_clock c)"

text \<open>Up is bit 4, Down bit 5, Left bit 6 and Right bit 7 of the button byte.\<close>

definition opposite_held :: "controller \<Rightarrow> bool" where
  "opposite_held c \<longleftrightarrow>
     (bit (currentState c) 4 \<and> bit (currentState c) 5) \<or>
     (bit (currentState c) 6 \<and> bit (currentState c) 7)"

section \<open>Mapper base class\<close>

text \<open>
  The base class of the mappers (\<^verbatim>\<open>mapper-base.js\<close>) and the ROM loader are not among
  the sources. The fields below are the ones the concrete mappers use. \<open>prgData\<close> is the
  linear PRG image, always an array once a cartridge is loaded; \<open>prgRam\<close> is the PRG-RAM
  array, a byte array; \<open>prgPagesMap\<close> and \<open>chrPagesMap\<close> are the page maps, arrays
  of four and eight slots that the mappers index with a slot number computed in range,
  modelled as functions from the slot to the offset; \<open>prgBanks8k\<close> and \<open>chrBanks1k\<close> are the values
  returned by \<^verbatim>\<open>get8kPrgBankCount()\<close> and \<^verbatim>\<open>get1kChrBankCount()\<close>, constants of the
  cartridge; \<open>prgBankCount\<close> is the field of that name; \<open>fourScreen\<close> is
  \<^verbatim>\<open>nes.rom.fourScreen\<close>.
\<close>

record mapper =
  prgData :: "int list"
  prgPagesMap :: "int \<Rightarrow> int"
  chrPagesMap :: "int \<Rightarrow> int"
  prgRam :: "int list"
  prgBankCount :: int
  prgBanks8k :: int
  chrBanks1k :: int
  fourScreen :: bool

definition get8kPrgBankCount :: "'a mapper_scheme \<Rightarrow> int" where
  "get8kPrgBankCount m = prgBanks8k m"

definition get1kChrBankCount :: "'a mapper_scheme \<Rightarrow> int" where
  "get1kChrBankCount m = chrBanks1k m"

text \<open>
  Modelled from the spec: the bank counts of the other sizes and the bank-switching
  helpers of the framework are missing from the sources. The specification says that
  the PRG page map has four 8 KiB slots and the CHR page map eight 1 KiB slots, both
  holding offsets into the linear PRG and CHR arrays, that the framework provides helpers
  switching 8/16/32 KiB PRG and 1/2/4/8 KiB CHR banks into the page maps, and that banks
  are masked to the available size.
\<close>

definition get32kPrgBankCount :: "'a mapper_scheme \<Rightarrow> int" where
  "get32kPrgBankCount m = prgBanks8k m div 4"

definition get16kPrgBankCount :: "'a mapper_scheme \<Rightarrow> int" where
  "get16kPrgBankCount m = prgBanks8k m div 2"

definition get8kChrBankCount :: "'a mapper_scheme \<Rightarrow> int" where
  "get8kChrBankCount m = chrBanks1k m div 8"

definition mask_bank :: "int \<Rightarrow> int \<Rightarrow> int" where
  "mask_bank bank count = (if count > 0 then bank mod count else 0)"

definition switch32kPrgBank :: "int \<Rightarrow> 'a mapper_scheme \<Rightarrow> 'a mapper_scheme" where
  "switch32kPrgBank bank m =
     (let b = mask_bank bank (get32kPrgBankCount m)
      in m\<lparr>prgPagesMap := (\<lambda>slot. (b * 4 + slot) * 0x2000)\<rparr>)"

definition switch16kPrgBank :: "int \<Rightarrow> bool \<Rightarrow> 'a mapper_scheme \<Rightarrow> 'a mapper_scheme" where
  "switch16kPrgBank bank low m =
     (let b = mask_bank bank (get16kPrgBankCount m);
          s = (if low then 0 else 2)
      in m\<lparr>prgPagesMap := (prgPagesMap m)(s := b * 2 * 0x2000, s + 1 := (b * 2 + 1) * 0x2000)\<rparr>)"

definition switch8kChrBank :: "int \<Rightarrow> 'a mapper_scheme \<Rightarrow> 'a mapper_scheme" where
  "switch8kChrBank bank m =
     (let b = mask_bank bank (get8kChrBankCount m)
      in m\<lparr>chrPagesMap := (\<lambda>slot. (b * 8 + slot) * 0x400)\<rparr>)"

section \<open>Mapper 000, NROM\<close>

definition Mapper000_cpuRead :: "int \<Rightarrow> 'a mapper_scheme \<Rightarrow> int option" where
  "Mapper000_cpuRead address m =
     (if address \<ge> 0x6000 \<and> address < 0x8000 then js_index (prgRam m) (address - 0x6000)
      else if address \<ge> 0x8000 then
        (if prgBankCount m = 0 then Some 0
         else let slot = drop_bit 13 address AND 0x03;
                  offsetInSlot = address AND 0x1FFF;
                  bankOffset = prgPagesMap m slot
              in js_index (prgData m) (bankOffset + offsetInSlot))
      else None)"

definition Mapper000_cpuWrite :: "int \<Rightarrow> int \<Rightarrow> 'a mapper_scheme \<Rightarrow> 'a mapper_scheme" where
  "Mapper000_cpuWrite address data m =
     (if address \<ge> 0x6000 \<and> address < 0x8000
      then m\<lparr>prgRam := u8_store (prgRam m) (address - 0x6000) data\<rparr>
      else m)"

section \<open>Mapper 003, CNROM (mappers/mapper003.js)\<close>

record mapper003 = mapper +
  chrBank :: int

definition Mapper003_updateBanks :: "'a mapper003_scheme \<Rightarrow> 'a mapper003_scheme" where
  "Mapper003_updateBanks m =
     (let m1 = (if get32kPrgBankCount m > 0 then switch32kPrgBank 0 m
                else switch16kPrgBank 0 False (switch16kPrgBank 0 True m))
      in switch8kChrBank (chrBank m1) m1)"

definition Mapper003_cpuRead :: "int \<Rightarrow> 'a mapper003_scheme \<Rightarrow> int option" where
  "Mapper003_cpuRead address m =
     (if address \<ge> 0x8000 then
        (let slot = drop_bit 13 address AND 0x03;
             offset = address AND 0x1FFF
         in js_index (prgData m) (prgPagesMap m slot + offset))
      else None)"

definition Mapper003_cpuWrite :: "int \<Rightarrow> int \<Rightarrow> 'a mapper003_scheme \<Rightarrow> 'a mapper003_scheme" where
  "Mapper003_cpuWrite address data m =
     (if address \<ge> 0x8000 then
        (let slot = drop_bit 13 address AND 0x03;
             offset = address AND 0x1FFF;
             romValue = js_index (prgData m) (prgPagesMap m slot + offset)
         in Mapper003_updateBanks (m\<lparr>chrBank := (data AND js_num romValue) AND 0x03\<rparr>))
      else m)"

text \<open>
  \<^verbatim>\<open>reset()\<close> also hands the mirroring of the ROM header to the PPU, which is
  outside the state of the mapper.
\<close>

definition Mapper003_reset :: "'a mapper003_scheme \<Rightarrow> 'a mapper003_scheme" where
  "Mapper003_reset m = Mapper003_updateBanks (m\<lparr>chrBank := 0\<rparr>)"

section \<open>Mapper 004, MMC3\<close>

datatype mirroring = HORIZONTAL_MIRRORING | VERTICAL_MIRRORING

record mapper004 = mapper +
  reg :: "int list"
  prgOffsets :: "int list"
  chrOffsets :: "int list"
  prgMode :: int
  chrMode :: int
  bankSelect :: int
  irqEnabled :: bool
  irqCounter :: int
  irqLatch :: int
  irqReload :: bool
  prgRamEnabled :: bool
  prgRamWriteProtect :: bool

definition Mapper004_reset :: "'a mapper004_scheme \<Rightarrow> 'a mapper004_scheme" where
  "Mapper004_reset m =
     m\<lparr>prgOffsets := u32_store (prgOffsets m) 3 (push_bit 13 (get8kPrgBankCount m - 1))\<rparr>"

definition reg_at :: "'a mapper004_scheme \<Rightarrow> int \<Rightarrow> int" where
  "reg_at m i = js_num (js_index (reg m) i)"

definition Mapper004_updateBanks :: "'a mapper004_scheme \<Rightarrow> 'a mapper004_scheme" where
  "Mapper004_updateBanks m =
    (let chrMask = (if get1kChrBankCount m > 0 then get1kChrBankCount m - 1 else 0);
         co = chrOffsets m;
         co = (if chrMode m = 0 then
                (let co = u32_store co 0 (push_bit 10 ((reg_at m 0 AND 0xFE) AND chrMask));
                     co = u32_store co 1 (push_bit 10 ((reg_at m 0 OR 0x01) AND chrMask));
                     co = u32_store co 2 (push_bit 10 ((reg_at m 1 AND 0xFE) AND chrMask));
                     co = u32_store co 3 (push_bit 10 ((reg_at m 1 OR 0x01) AND chrMask));
                     co = u32_store co 4 (push_bit 10 (reg_at m 2 AND chrMask));
                     co = u32_store co 5 (push_bit 10 (reg_at m 3 AND chrMask));
                     co = u32_store co 6 (push_bit 10 (reg_at m 4 AND chrMask));
                     co = u32_store co 7 (push_bit 10 (reg_at m 5 AND chrMask))
                 in co)
               else
                (let co = u32_store co 0 (push_bit 10 (reg_at m 2 AND chrMask));
                     co = u32_store co 1 (push_bit 10 (reg_at m 3 AND chrMask));
                     co = u32_store co 2 (push_bit 10 (reg_at m 4 AND chrMask));
                     co = u32_store co 3 (push_bit 10 (reg_at m 5 AND chrMask));
                     co = u32_store co 4 (push_bit 10 ((reg_at m 0 AND 0xFE) AND chrMask));
                     co = u32_store co 5 (push_bit 10 ((reg_at m 0 OR 0x01) AND chrMask));
                     co = u32_store co 6 (push_bit 10 ((reg_at m 1 AND 0xFE) AND chrMask));
                     co = u32_store co 7 (push_bit 10 ((reg_at m 1 OR 0x01) AND chrMask))
                 in co));
         prgMask = (if get8kPrgBankCount m > 0 then get8kPrgBankCount m - 1 else 0);
         po = prgOffsets m;
         po = (if prgMode m = 0 then
                (let po = u32_store po 0 (push_bit 13 (reg_at m 6 AND prgMask));
                     po = u32_store po 1 (push_bit 13 (reg_at m 7 AND prgMask));
                     po = u32_store po 2 (push_bit 13 (get8kPrgBankCount m - 2))
                 in po)
               else
                (let po = u32_store po 0 (push_bit 13 (get8kPrgBankCount m - 2));
                     po = u32_store po 1 (push_bit 13 (reg_at m 7 AND prgMask));
                     po = u32_store po 2 (push_bit 13 (reg_at m 6 AND prgMask))
                 in po));
         po = u32_store po 3 (push_bit 13 (get8kPrgBankCount m - 1))
     in m\<lparr>chrOffsets := co, prgOffsets := po\<rparr>)"

text \<open>
  \<^verbatim>\<open>cpuWrite\<close> reaches outside the mapper: \<^verbatim>\<open>$E000\<close> acknowledges the interrupt at the
  CPU (\<^verbatim>\<open>clearIrq\<close>) and \<^verbatim>\<open>$A000\<close> sets the mirroring register of the PPU. The state
  is therefore the mapper, the interrupt slot of the CPU and the mirroring of the PPU.
\<close>

definition Mapper004_cpuWrite ::
  "int \<Rightarrow> int \<Rightarrow> 'a mapper004_scheme \<times> 'c irq_state_scheme \<times> mirroring
     \<Rightarrow> 'a mapper004_scheme \<times> 'c irq_state_scheme \<times> mirroring" where
  "Mapper004_cpuWrite address data = (\<lambda>(m, cpu, mir).
     if address \<ge> 0x6000 \<and> address < 0x8000 then
       (if prgRamEnabled m \<and> \<not> prgRamWriteProtect m
        then (m\<lparr>prgRam := u8_store (prgRam m) (address - 0x6000) data\<rparr>, cpu, mir)
        else (m, cpu, mir))
     else if address < 0x8000 then (m, cpu, mir)
     else
       (let r = address AND 1;
            base = address AND 0xE000
        in if base = 0x8000 then
             (if r = 0
              then (Mapper004_updateBanks
                      (m\<lparr>prgMode := drop_bit 6 data AND 1,
                         chrMode := drop_bit 7 data AND 1,
                         bankSelect := data AND 7\<rparr>), cpu, mir)
              else (Mapper004_updateBanks
                      (m\<lparr>reg := u8_store (reg m) (bankSelect m) data\<rparr>), cpu, mir))
           else if base = 0xA000 then
             (if r = 0
              then (if fourScreen m then (m, cpu, mir)
                    else (m, cpu, if data AND 1 \<noteq> 0 then HORIZONTAL_MIRRORING
                                  else VERTICAL_MIRRORING))
              else (m\<lparr>prgRamEnabled := (data AND 0x80 \<noteq> 0),
                      prgRamWriteProtect := (data AND 0x40 \<noteq> 0)\<rparr>, cpu, mir))
           else if base = 0xC000 then
             (if r = 0 then (m\<lparr>irqLatch := data\<rparr>, cpu, mir)
              else (m\<lparr>irqReload := True\<rparr>, cpu, mir))
           else if base = 0xE000 then
             (if r = 0 then (m\<lparr>irqEnabled := False\<rparr>, CPU_clearIrq IRQ_NORMAL cpu, mir)
              else (m\<lparr>irqEnabled := True\<rparr>, cpu, mir))
           else (m, cpu, mir)))"

definition Mapper004_cpuRead :: "int \<Rightarrow> 'a mapper004_scheme \<Rightarrow> int option" where
  "Mapper004_cpuRead address m =
     (if address \<ge> 0x6000 \<and> address < 0x8000 then
        (if \<not> prgRamEnabled m then Some (drop_bit 8 address AND 0xFF)
         else js_index (prgRam m) (address - 0x6000))
      else if address \<ge> 0x8000 then
        (let slot = drop_bit 13 address AND 0x03;
             offset = address AND 0x1FFF
         in case js_index (prgOffsets m) slot of None \<Rightarrow> None
            | Some po \<Rightarrow> js_index (prgData m) (po + offset))
      else None)"

text \<open>
  \<^verbatim>\<open>clockScanline()\<close> is called by the PPU on each rising edge of A12. It returns the
  mapper and the interrupt slot of the CPU, on which it may call \<^verbatim>\<open>requestIrq\<close>.
\<close>

definition Mapper004_clockScanline ::
  "'a mapper004_scheme \<times> 'c irq_state_scheme \<Rightarrow> 'a mapper004_scheme \<times> 'c irq_state_scheme" where
  "Mapper004_clockScanline = (\<lambda>(m, cpu).
     if irqCounter m = 0 \<or> irqReload m
     then (m\<lparr>irqCounter := irqLatch m, irqReload := False\<rparr>, cpu)
     else (let m1 = m\<lparr>irqCounter := irqCounter m - 1\<rparr>
           in if irqCounter m1 = 0 \<and> irqEnabled m1
              then (m1, CPU_requestIrq IRQ_NORMAL cpu)
              else (m1, cpu)))"

section \<open>CPU (the 6502 interpreter)\<close>

subsection \<open>Opcode table\<close>

text \<open>
  \<^verbatim>\<open>buildOpData\<close> fills a table of 256 packed entries: instruction id in bits 0-7,
  addressing mode in bits 8-15, size in bits 16-23, base cycles in bits 24-31. It
  starts from \<^verbatim>\<open>0xff\<close> everywhere, performs the \<^verbatim>\<open>setOp\<close> calls below in the order
  of the source, and gives every opcode still at \<^verbatim>\<open>0xff\<close> the entry of NOP.
\<close>

definition ZP :: int where "ZP = 0"
definition REL :: int where "REL = 1"
definition IMP :: int where "IMP = 2"
definition ABS :: int where "ABS = 3"
definition ACC :: int where "ACC = 4"
definition IMM :: int where "IMM = 5"
definition ZPX :: int where "ZPX = 6"
definition ZPY :: int where "ZPY = 7"
definition ABSX :: int where "ABSX = 8"
definition ABSY :: int where "ABSY = 9"
definition PRE :: int where "PRE = 10"
definition POST :: int where "POST = 11"
definition IND :: int where "IND = 12"

definition setOp :: "int list \<Rightarrow> int \<times> int \<times> int \<times> int \<times> int \<Rightarrow> int list" where
  "setOp opdata = (\<lambda>(op, inst, addr, size, cycles).
     u32_store opdata op
       ((inst AND 0xff) OR push_bit 8 (addr AND 0xff) OR push_bit 16 (size AND 0xff) OR
        push_bit 24 (cycles AND 0xff)))"

definition op_entries :: "(int \<times> int \<times> int \<times> int \<times> int) list" where
  "op_entries =
     [
      (0x69, 0, IMM, 2, 2), (0x65, 0, ZP, 2, 3), (0x75, 0, ZPX, 2, 4), (0x6D, 0, ABS, 3, 4),
      (0x7D, 0, ABSX, 3, 4), (0x79, 0, ABSY, 3, 4), (0x61, 0, PRE, 2, 6), (0x71, 0, POST, 2, 5),
      (0x29, 1, IMM, 2, 2), (0x25, 1, ZP, 2, 3), (0x35, 1, ZPX, 2, 4), (0x2D, 1, ABS, 3, 4),
      (0x3D, 1, ABSX, 3, 4), (0x39, 1, ABSY, 3, 4), (0x21, 1, PRE, 2, 6), (0x31, 1, POST, 2, 5),
      (0x0A, 2, ACC, 1, 2), (0x06, 2, ZP, 2, 5), (0x16, 2, ZPX, 2, 6), (0x0E, 2, ABS, 3, 6), (0x1E, 2, ABSX, 3, 7),
      (0x90, 3, REL, 2, 2), (0xB0, 4, REL, 2, 2), (0xF0, 5, REL, 2, 2),
      (0x24, 6, ZP, 2, 3), (0x2C, 6, ABS, 3, 4),
      (0x30, 7, REL, 2, 2), (0xD0, 8, REL, 2, 2), (0x10, 9, REL, 2, 2),
      (0x00, 10, IMP, 1, 7),
      (0x50, 11, REL, 2, 2), (0x70, 12, REL, 2, 2),
      (0x18, 13, IMP, 1, 2), (0xD8, 14, IMP, 1, 2), (0x58, 15, IMP, 1, 2), (0xB8, 16, IMP, 1, 2),
      (0xC9, 17, IMM, 2, 2), (0xC5, 17, ZP, 2, 3), (0xD5, 17, ZPX, 2, 4), (0xCD, 17, ABS, 3, 4),
      (0xDD, 17, ABSX, 3, 4), (0xD9, 17, ABSY, 3, 4), (0xC1, 17, PRE, 2, 6), (0xD1, 17, POST, 2, 5),
      (0xE0, 18, IMM, 2, 2), (0xE4, 18, ZP, 2, 3), (0xEC, 18, ABS, 3, 4),
      (0xC0, 19, IMM, 2, 2), (0xC4, 19, ZP, 2, 3), (0xCC, 19, ABS, 3, 4),
      (0xC6, 20, ZP, 2, 5), (0xD6, 20, ZPX, 2, 6), (0xCE, 20, ABS, 3, 6), (0xDE, 20, ABSX, 3, 7),
      (0xCA, 21, IMP, 1, 2), (0x88, 22, IMP, 1, 2),
      (0x49, 23, IMM, 2, 2), (0x45, 23, ZP, 2, 3), (0x55, 23, ZPX, 2, 4), (0x4D, 23, ABS, 3, 4),
      (0x5D, 23, ABSX, 3, 4), (0x59, 23, ABSY, 3, 4), (0x41, 23, PRE, 2, 6), (0x51, 23, POST, 2, 5),
      (0xE6, 24, ZP, 2, 5), (0xF6, 24, ZPX, 2, 6), (0xEE, 24, ABS, 3, 6), (0xFE, 24, ABSX, 3, 7),
      (0xE8, 25, IMP, 1, 2), (0xC8, 26, IMP, 1, 2),
      (0x4C, 27, ABS, 3, 3), (0x6C, 27, IND, 3, 5),
      (0x20, 28, ABS, 3, 6),
      (0xA9, 29, IMM, 2, 2), (0xA5, 29, ZP, 2, 3), (0xB5, 29, ZPX, 2, 4), (0xAD, 29, ABS, 3, 4),
      (0xBD, 29, ABSX, 3, 4), (0xB9, 29, ABSY, 3, 4), (0xA1, 29, PRE, 2, 6), (0xB1, 29, POST, 2, 5),
      (0xA2, 30, IMM, 2, 2), (0xA6, 30, ZP, 2, 3), (0xB6, 30, ZPY, 2, 4), (0xAE, 30, ABS, 3, 4), (0xBE, 30, ABSY, 3, 4),
      (0xA0, 31, IMM, 2, 2), (0xA4, 31, ZP, 2, 3), (0xB4, 31, ZPX, 2, 4), (0xAC, 31, ABS, 3, 4), (0xBC, 31, ABSX, 3, 4),
      (0x4A, 32, ACC, 1, 2), (0x46, 32, ZP, 2, 5), (0x56, 32, ZPX, 2, 6), (0x4E, 32, ABS, 3, 6), (0x5E, 32, ABSX, 3, 7),
      (0x1A, 33, IMP, 1, 2), (0x3A, 33, IMP, 1, 2), (0x5A, 33, IMP, 1, 2), (0x7A, 33, IMP, 1, 2), (0xDA, 33, IMP, 1, 2), (0xEA, 33, IMP, 1, 2), (0xFA, 33, IMP, 1, 2),
      (0x09, 34, IMM, 2, 2), (0x05, 34, ZP, 2, 3), (0x15, 34, ZPX, 2, 4), (0x0D, 34, ABS, 3, 4),
      (0x1D, 34, ABSX, 3, 4), (0x19, 34, ABSY, 3, 4), (0x01, 34, PRE, 2, 6), (0x11, 34, POST, 2, 5),
      (0x48, 35, IMP, 1, 3), (0x08, 36, IMP, 1, 3), (0x68, 37, IMP, 1, 4), (0x28, 38, IMP, 1, 4),
      (0x2A, 39, ACC, 1, 2), (0x26, 39, ZP, 2, 5), (0x36, 39, ZPX, 2, 6), (0x2E, 39, ABS, 3, 6), (0x3E, 39, ABSX, 3, 7),
      (0x6A, 40, ACC, 1, 2), (0x66, 40, ZP, 2, 5), (0x76, 40, ZPX, 2, 6), (0x6E, 40, ABS, 3, 6), (0x7E, 40, ABSX, 3, 7),
      (0x40, 41, IMP, 1, 6), (0x60, 42, IMP, 1, 6),
      (0xE9, 43, IMM, 2, 2), (0xE5, 43, ZP, 2, 3), (0xF5, 43, ZPX, 2, 4), (0xED, 43, ABS, 3, 4),
      (0xFD, 43, ABSX, 3, 4), (0xF9, 43, ABSY, 3, 4), (0xE1, 43, PRE, 2, 6), (0xF1, 43, POST, 2, 5),
      (0x38, 44, IMP, 1, 2), (0xF8, 45, IMP, 1, 2), (0x78, 46, IMP, 1, 2),
      (0x85, 47, ZP, 2, 3), (0x95, 47, ZPX, 2, 4), (0x8D, 47, ABS, 3, 4), (0x9D, 47, ABSX, 3, 5),
      (0x99, 47, ABSY, 3, 5), (0x81, 47, PRE, 2, 6), (0x91, 47, POST, 2, 6),
      (0x86, 48, ZP, 2, 3), (0x96, 48, ZPY, 2, 4), (0x8E, 48, ABS, 3, 4),
      (0x84, 49, ZP, 2, 3), (0x94, 49, ZPX, 2, 4), (0x8C, 49, ABS, 3, 4),
      (0xAA, 50, IMP, 1, 2), (0xA8, 51, IMP, 1, 2), (0xBA, 52, IMP, 1, 2),
      (0x8A, 53, IMP, 1, 2), (0x9A, 54, IMP, 1, 2), (0x98, 55, IMP, 1, 2),
      (0x4B, 56, IMM, 2, 2), (0x0B, 56, IMM, 2, 2), (0x2B, 56, IMM, 2, 2), (0x6B, 56, IMM, 2, 2), (0xCB, 56, IMM, 2, 2),
      (0xA3, 57, PRE, 2, 6), (0xA7, 57, ZP, 2, 3), (0xAF, 57, ABS, 3, 4), (0xB3, 57, POST, 2, 5), (0xB7, 57, ZPY, 2, 4), (0xBF, 57, ABSY, 3, 4),
      (0x83, 58, PRE, 2, 6), (0x87, 58, ZP, 2, 3), (0x8F, 58, ABS, 3, 4), (0x97, 58, ZPY, 2, 4),
      (0xC3, 59, PRE, 2, 8), (0xC7, 59, ZP, 2, 5), (0xCF, 59, ABS, 3, 6), (0xD3, 59, POST, 2, 8), (0xD7, 59, ZPX, 2, 6), (0xDB, 59, ABSY, 3, 7), (0xDF, 59, ABSX, 3, 7),
      (0xE3, 60, PRE, 2, 8), (0xE7, 60, ZP, 2, 5), (0xEF, 60, ABS, 3, 6), (0xF3, 60, POST, 2, 8), (0xF7, 60, ZPX, 2, 6), (0xFB, 60, ABSY, 3, 7), (0xFF, 60, ABSX, 3, 7),
      (0x23, 61, PRE, 2, 8), (0x27, 61, ZP, 2, 5), (0x2F, 61, ABS, 3, 6), (0x33, 61, POST, 2, 8), (0x37, 61, ZPX, 2, 6), (0x3B, 61, ABSY, 3, 7), (0x3F, 61, ABSX, 3, 7),
      (0x63, 62, PRE, 2, 8), (0x67, 62, ZP, 2, 5), (0x6F, 62, ABS, 3, 6), (0x73, 62, POST, 2, 8), (0x77, 62, ZPX, 2, 6), (0x7B, 62, ABSY, 3, 7), (0x7F, 62, ABSX, 3, 7),
      (0x03, 63, PRE, 2, 8), (0x07, 63, ZP, 2, 5), (0x0F, 63, ABS, 3, 6), (0x13, 63, POST, 2, 8), (0x17, 63, ZPX, 2, 6), (0x1B, 63, ABSY, 3, 7), (0x1F, 63, ABSX, 3, 7),
      (0x43, 64, PRE, 2, 8), (0x47, 64, ZP, 2, 5), (0x4F, 64, ABS, 3, 6), (0x53, 64, POST, 2, 8), (0x57, 64, ZPX, 2, 6), (0x5B, 64, ABSY, 3, 7), (0x5F, 64, ABSX, 3, 7),
      (0x80, 68, IMM, 2, 2), (0x82, 68, IMM, 2, 2), (0x89, 68, IMM, 2, 2), (0xC2, 68, IMM, 2, 2), (0xE2, 68, IMM, 2, 2),
      (0x0C, 69, ABSX, 3, 4), (0x1C, 69, ABSX, 3, 4), (0x3C, 69, ABSX, 3, 4), (0x5C, 69, ABSX, 3, 4), (0x7C, 69, ABSX, 3, 4), (0xDC, 69, ABSX, 3, 4), (0xFC, 69, ABSX, 3, 4),
      (0x04, 69, ZP, 2, 3), (0x44, 69, ZP, 2, 3), (0x64, 69, ZP, 2, 3),
      (0x14, 69, ZPX, 2, 4), (0x34, 69, ZPX, 2, 4), (0x54, 69, ZPX, 2, 4), (0x74, 69, ZPX, 2, 4), (0xD4, 69, ZPX, 2, 4), (0xF4, 69, ZPX, 2, 4)
     ]"

definition buildOpData :: "int list" where
  "buildOpData =
     (let opdata = foldl setOp (replicate 256 0xff) op_entries
      in map (\<lambda>v. if v = 0xff then hd (setOp [0] (0, 33, IMP, 1, 2)) else v) opdata)"

definition OPDATA :: "int list" where
  "OPDATA = buildOpData"

definition readInstructionsWithPenalty :: "int list" where
  "readInstructionsWithPenalty = [0, 1, 17, 23, 29, 30, 31, 34, 43, 60]"

subsection \<open>State\<close>

text \<open>
  The record holds the fields of the \<^verbatim>\<open>CPU\<close> object and what the CPU reaches through
  \<^verbatim>\<open>this.nes\<close>: the two controllers (\<^verbatim>\<open>nes.controllers[1]\<close> and
  \<^verbatim>\<open>nes.controllers[2]\<close>) and, in \<open>ext\<close>, the state of the PPU, the APU, the mapper
  and the Zapper, whose sources are outside this development. \<open>mem\<close> is the
  \<^verbatim>\<open>Uint8Array\<close> of 64 KiB, read and written only at \<^verbatim>\<open>addr & 0x7FF\<close>. \<open>busLog\<close> is
  not a field of the program: it records, in order, every \<^verbatim>\<open>cpuRead\<close> and
  \<^verbatim>\<open>cpuWrite\<close> performed, so that statements about which bus accesses an instruction
  makes can be written down.
\<close>

datatype bus_access = BusRead int | BusWrite int int

record 'x nes = irq_state +
  mem :: "int \<Rightarrow> int"
  cyclesToHalt :: int
  REG_ACC :: int
  REG_X :: int
  REG_Y :: int
  REG_SP :: int
  REG_PC :: int
  REG_PC_NEW :: int
  REG_STATUS :: int
  F_CARRY :: int
  F_DECIMAL :: int
  F_INTERRUPT :: int
  F_INTERRUPT_NEW :: int
  F_OVERFLOW :: int
  F_SIGN :: int
  F_ZERO :: int
  F_NOTUSED :: int
  F_BRK :: int
  F_BRK_NEW :: int
  cycleCount :: int
  dataBus :: int
  controller1Read :: bool
  controller2Read :: bool
  cycleOffset :: int
  instructionCount :: int
  inNMI :: bool
  nmiStartInstruction :: int
  controller1 :: controller
  controller2 :: controller
  ext :: 'x
  busLog :: "bus_access list"

text \<open>
  The operations of the PPU, the APU, the mapper and the Zapper that the CPU calls are
  parameters: functions on the state \<open>'x\<close> of these devices. A read that yields
  \<^verbatim>\<open>undefined\<close> is \<open>None\<close>; an optional hook that the object does not define is
  \<open>None\<close>. The model covers a console with a cartridge inserted (\<^verbatim>\<open>nes.mmap\<close> is set);
  \<open>papu_present\<close> tells whether \<^verbatim>\<open>nes.papu\<close> is set. What a device does to the CPU
  while it runs (\<^verbatim>\<open>requestIrq\<close>, \<^verbatim>\<open>clearIrq\<close>, \<^verbatim>\<open>haltCycles\<close>) is not part of these
  functions: such calls are steps of their own on the CPU state.
\<close>

record 'x devices =
  catchUp :: "'x \<Rightarrow> 'x"
  ppu_readRegister :: "int \<Rightarrow> 'x \<Rightarrow> int \<times> 'x"
  ppu_writeRegister :: "int \<Rightarrow> int \<Rightarrow> 'x \<Rightarrow> 'x"
  ppu_doDMA :: "int \<Rightarrow> 'x \<Rightarrow> 'x"
  ppu_scanline :: "'x \<Rightarrow> int"
  ppu_cycle :: "'x \<Rightarrow> int"
  ppu_framebuffer :: "'x \<Rightarrow> int \<Rightarrow> int option"
  zapper_x :: "'x \<Rightarrow> int"
  zapper_y :: "'x \<Rightarrow> int"
  zapper_fired :: "'x \<Rightarrow> bool"
  papu_present :: bool
  papu_readReg :: "int \<Rightarrow> 'x \<Rightarrow> int option \<times> 'x"
  papu_writeReg :: "int \<Rightarrow> int \<Rightarrow> 'x \<Rightarrow> 'x"
  mmap_cpuRead :: "int \<Rightarrow> 'x \<Rightarrow> int option \<times> 'x"
  mmap_cpuWrite :: "int \<Rightarrow> int \<Rightarrow> 'x \<Rightarrow> 'x"
  mmap_onNmiVectorRead :: "('x \<Rightarrow> 'x) option"
  mmap_recordCpuInstruction :: "(int \<Rightarrow> int \<Rightarrow> 'x \<Rightarrow> 'x) option"
  mmap_recordCpuInstructionHit :: "(int \<Rightarrow> int \<Rightarrow> 'x \<Rightarrow> 'x) option"
  nes_recordPpuTraceAccess :: "(int \<Rightarrow> int \<Rightarrow> int \<Rightarrow> 'x \<Rightarrow> 'x) option"

definition run_hook :: "('x \<Rightarrow> 'x) option \<Rightarrow> 'x nes \<Rightarrow> 'x nes" where
  "run_hook h s = (case h of None \<Rightarrow> s | Some f \<Rightarrow> s\<lparr>ext := f (ext s)\<rparr>)"

subsection \<open>Memory mapping\<close>

text \<open>The Zapper part of a read of \<^verbatim>\<open>$4017\<close>: whether the beam is over a bright pixel.\<close>

definition lightDetected :: "'x devices \<Rightarrow> 'x \<Rightarrow> bool" where
  "lightDetected d e =
     (let radius = 8 in
      if ppu_scanline d e < 240 \<and> \<bar>ppu_scanline d e - zapper_y d e\<bar> \<le> radius then
        (let currentX = ppu_cycle d e - 2 in
         if currentX \<ge> 0 \<and> currentX < 256 \<and> \<bar>currentX - zapper_x d e\<bar> \<le> radius then
           (let pixel = js_num (ppu_framebuffer d e (ppu_scanline d e * 256 + currentX));
                r = drop_bit 16 pixel AND 0xFF;
                g = drop_bit 8 pixel AND 0xFF;
                b = pixel AND 0xFF
            in r + g + b > 500)
         else False)
      else False)"

definition CPU_cpuRead :: "'x devices \<Rightarrow> int \<Rightarrow> 'x nes \<Rightarrow> int \<times> 'x nes" where
  "CPU_cpuRead d addr s =
     (let (value, s1) =
        (if addr < 0x2000 then (mem s (addr AND 0x7FF), s)
         else if addr < 0x4000 then
           (let reg = addr AND 0x0007;
                (v, e) = ppu_readRegister d reg (catchUp d (ext s))
            in (v, s\<lparr>ext := e\<rparr>))
         else if addr < 0x4020 then
           (if addr = 0x4016 then
              (Controller_read (controller1 s), s\<lparr>controller1Read := True\<rparr>)
            else if addr = 0x4017 then
              (let e = catchUp d (ext s);
                   ret = Controller_read (controller2 s);
                   ret = (if \<not> lightDetected d e then ret OR 0x08 else ret);
                   ret = (if \<not> zapper_fired d e then ret OR 0x10 else ret)
               in (ret, s\<lparr>ext := e, controller2Read := True\<rparr>))
            else if papu_present d then
              (let (v, e) = papu_readReg d addr (ext s)
               in (case v of None \<Rightarrow> dataBus s | Some x \<Rightarrow> x, s\<lparr>ext := e\<rparr>))
            else (dataBus s, s))
         else
           (let (v, e) = mmap_cpuRead d addr (ext s)
            in (case v of None \<Rightarrow> dataBus s | Some x \<Rightarrow> x, s\<lparr>ext := e\<rparr>)))
      in (value, s1\<lparr>dataBus := value, busLog := busLog s1 @ [BusRead addr]\<rparr>))"

definition CPU_cpuRead16bit :: "'x devices \<Rightarrow> int \<Rightarrow> 'x nes \<Rightarrow> int \<times> 'x nes" where
  "CPU_cpuRead16bit d addr s =
     (let s0 = (if addr = 0xFFFA then run_hook (mmap_onNmiVectorRead d) s else s);
          (lo, s1) = CPU_cpuRead d addr s0;
          (hi, s2) = CPU_cpuRead d (addr + 1) s1
      in (lo OR push_bit 8 hi, s2))"

definition CPU_cpuWrite :: "'x devices \<Rightarrow> int \<Rightarrow> int \<Rightarrow> 'x nes \<Rightarrow> 'x nes" where
  "CPU_cpuWrite d addr val s0 =
     (let s = s0\<lparr>dataBus := val, busLog := busLog s0 @ [BusWrite addr val]\<rparr>;
          s = (if addr = 0x4014
               then run_hook (map_option (\<lambda>f. f addr val (REG_PC s)) (nes_recordPpuTraceAccess d)) s
               else s)
      in if addr < 0x2000 then s\<lparr>mem := (mem s)(addr AND 0x7FF := val mod 0x100)\<rparr>
         else if addr < 0x4000 then
           s\<lparr>ext := ppu_writeRegister d (addr AND 0x0007) val (catchUp d (ext s))\<rparr>
         else if addr < 0x4020 then
           (if addr = 0x4014 then s\<lparr>ext := ppu_doDMA d val (catchUp d (ext s))\<rparr>
            else if addr = 0x4016 then
              s\<lparr>controller1 := Controller_strobe val (controller1 s),
                controller2 := Controller_strobe val (controller2 s)\<rparr>
            else if papu_present d then s\<lparr>ext := papu_writeReg d addr val (ext s)\<rparr>
            else s)
         else s\<lparr>ext := mmap_cpuWrite d addr val (catchUp d (ext s))\<rparr>)"

subsection \<open>Stack, status register, interrupts\<close>

definition CPU_push :: "'x devices \<Rightarrow> int \<Rightarrow> 'x nes \<Rightarrow> 'x nes" where
  "CPU_push d v s =
     (let s1 = CPU_cpuWrite d (0x100 OR REG_SP s) v s
      in s1\<lparr>REG_SP := (REG_SP s1 - 1) AND 0xff\<rparr>)"

definition CPU_pull :: "'x devices \<Rightarrow> 'x nes \<Rightarrow> int \<times> 'x nes" where
  "CPU_pull d s =
     (let s1 = s\<lparr>REG_SP := (REG_SP s + 1) AND 0xff\<rparr>
      in CPU_cpuRead d (0x100 OR REG_SP s1) s1)"

definition CPU_haltCycles :: "int \<Rightarrow> 'x nes \<Rightarrow> 'x nes" where
  "CPU_haltCycles cycles s = s\<lparr>cyclesToHalt := cyclesToHalt s + cycles\<rparr>"

definition CPU_getStatus :: "'x nes \<Rightarrow> int" where
  "CPU_getStatus s =
     (let zeroFlag = (if F_ZERO s = 0 then 1 else 0)
      in F_CARRY s OR push_bit 1 zeroFlag OR push_bit 2 (F_INTERRUPT s) OR
         push_bit 3 (F_DECIMAL s) OR push_bit 4 (F_BRK s) OR push_bit 5 (F_NOTUSED s) OR
         push_bit 6 (F_OVERFLOW s) OR push_bit 7 (F_SIGN s))"

definition CPU_setStatus :: "int \<Rightarrow> 'x nes \<Rightarrow> 'x nes" where
  "CPU_setStatus st s =
     s\<lparr>F_CARRY := st AND 1,
       F_ZERO := (if drop_bit 1 st AND 1 \<noteq> 0 then 0 else 1),
       F_INTERRUPT := drop_bit 2 st AND 1,
       F_DECIMAL := drop_bit 3 st AND 1,
       F_BRK := drop_bit 4 st AND 1,
       F_NOTUSED := 1,
       F_OVERFLOW := drop_bit 6 st AND 1,
       F_SIGN := drop_bit 7 st AND 1\<rparr>"

definition CPU_reset :: "'x nes \<Rightarrow> 'x nes" where
  "CPU_reset s0 =
     (let s = s0\<lparr>cycleCount := 0, dataBus := 0, controller1Read := False,
                 controller2Read := False, REG_ACC := 0, REG_X := 0, REG_Y := 0,
                 REG_SP := 0xFD, REG_PC := 0x8000 - 1, REG_PC_NEW := 0x8000 - 1,
                 REG_STATUS := 0x24\<rparr>;
          s = CPU_setStatus 0x24 s;
          s = s\<lparr>F_BRK_NEW := F_BRK s, F_INTERRUPT_NEW := F_INTERRUPT s\<rparr>
      in s\<lparr>cyclesToHalt := 0, cycleOffset := 0, irqRequested := True, irqType := IRQ_RESET,
           instructionCount := 0\<rparr>)"

definition CPU_doNonMaskableInterrupt :: "'x devices \<Rightarrow> int \<Rightarrow> 'x nes \<Rightarrow> 'x nes" where
  "CPU_doNonMaskableInterrupt d status s =
     (let (nmiVector, s) = CPU_cpuRead16bit d 0xfffa s;
          pcToPush = (REG_PC_NEW s + 1) AND 0xFFFF;
          s = CPU_push d (drop_bit 8 pcToPush AND 0xff) s;
          s = CPU_push d (pcToPush AND 0xff) s;
          s = CPU_push d status s
      in s\<lparr>REG_PC_NEW := nmiVector - 1, inNMI := True, F_INTERRUPT_NEW := 1,
           nmiStartInstruction := instructionCount s\<rparr>)"

definition CPU_doResetInterrupt :: "'x devices \<Rightarrow> 'x nes \<Rightarrow> 'x nes" where
  "CPU_doResetInterrupt d s =
     (let (lo, s) = CPU_cpuRead d 0xFFFC s;
          (hi, s) = CPU_cpuRead d 0xFFFD s;
          vec = lo OR push_bit 8 hi
      in s\<lparr>REG_PC_NEW := vec - 1\<rparr>)"

definition CPU_doIrq :: "'x devices \<Rightarrow> int \<Rightarrow> 'x nes \<Rightarrow> 'x nes" where
  "CPU_doIrq d status s =
     (let pcToPush = (REG_PC_NEW s + 1) AND 0xFFFF;
          s = CPU_push d (drop_bit 8 pcToPush AND 0xff) s;
          s = CPU_push d (pcToPush AND 0xff) s;
          s = CPU_push d status s;
          s = s\<lparr>F_INTERRUPT_NEW := 1, F_BRK_NEW := 0\<rparr>;
          (vec, s) = CPU_cpuRead16bit d 0xfffe s
      in s\<lparr>REG_PC_NEW := vec - 1\<rparr>)"

definition CPU_stepControllers :: "'x nes \<Rightarrow> 'x nes" where
  "CPU_stepControllers s =
     (let s = (if controller1Read s
               then s\<lparr>controller1 := Controller_clock (controller1 s), controller1Read := False\<rparr>
               else s)
      in if controller2Read s
         then s\<lparr>controller2 := Controller_clock (controller2 s), controller2Read := False\<rparr>
         else s)"

subsection \<open>Addressing modes\<close>

text \<open>
  The three indexed modes with a page-cross check (Absolute,X, Absolute,Y and (d),Y)
  share their last step: compare the page of the base address with the page of the
  indexed address, on a difference note one page-cross cycle and read the address made
  of the old page and the new low byte, then add the index.
\<close>

definition indexed :: "'x devices \<Rightarrow> int \<Rightarrow> int \<Rightarrow> 'x nes \<Rightarrow> int \<times> int \<times> 'x nes" where
  "indexed d idx addr s =
     (if (addr AND 0xff00) \<noteq> ((addr + idx) AND 0xff00)
      then (addr + idx, 1, snd (CPU_cpuRead d ((addr AND 0xff00) OR ((addr + idx) AND 0xff)) s))
      else (addr + idx, 0, s))"

text \<open>
  The \<^verbatim>\<open>switch (addrMode)\<close> of \<^verbatim>\<open>emulate\<close>: the operand address before the final
  mask with \<^verbatim>\<open>0xffff\<close>, the page-cross cycles, and the state after the reads.
\<close>

definition addressing :: "'x devices \<Rightarrow> int \<Rightarrow> int \<Rightarrow> 'x nes \<Rightarrow> int \<times> int \<times> 'x nes" where
  "addressing d addrMode opaddr s =
     (if addrMode = 0 then
        (let (a, s) = CPU_cpuRead d (opaddr + 1) s in (a, 0, s))
      else if addrMode = 1 then
        (let (rel, s) = CPU_cpuRead d (opaddr + 1) s;
             base = (REG_PC s + 1) AND 0xFFFF
         in (base + (if rel < 0x80 then rel else rel - 256), 0, s))
      else if addrMode = 2 then (0, 0, s)
      else if addrMode = 3 then
        (let (a, s) = CPU_cpuRead16bit d (opaddr + 1) s in (a, 0, s))
      else if addrMode = 4 then (REG_ACC s, 0, s)
      else if addrMode = 5 then (REG_PC s, 0, s)
      else if addrMode = 6 then
        (let (a, s) = CPU_cpuRead d (opaddr + 1) s in ((a + REG_X s) AND 0xff, 0, s))
      else if addrMode = 7 then
        (let (a, s) = CPU_cpuRead d (opaddr + 1) s in ((a + REG_Y s) AND 0xff, 0, s))
      else if addrMode = 8 then
        (let (a, s) = CPU_cpuRead16bit d (opaddr + 1) s in indexed d (REG_X s) a s)
      else if addrMode = 9 then
        (let (a, s) = CPU_cpuRead16bit d (opaddr + 1) s in indexed d (REG_Y s) a s)
      else if addrMode = 10 then
        (let (p, s) = CPU_cpuRead d (opaddr + 1) s;
             ptr = (p + REG_X s) AND 0xff;
             (lo, s) = CPU_cpuRead d ptr s;
             (hi, s) = CPU_cpuRead d ((ptr + 1) AND 0xff) s
         in (lo OR push_bit 8 hi, 0, s))
      else if addrMode = 11 then
        (let (ptr, s) = CPU_cpuRead d (opaddr + 1) s;
             (lo, s) = CPU_cpuRead d ptr s;
             (hi, s) = CPU_cpuRead d ((ptr + 1) AND 0xff) s
         in indexed d (REG_Y s) (lo OR push_bit 8 hi) s)
      else if addrMode = 12 then
        (let (a, s) = CPU_cpuRead16bit d (opaddr + 1) s;
             lo = a;
             hi = (a AND 0xff00) OR ((a + 1) AND 0xff);
             (l, s) = CPU_cpuRead d lo s;
             (h, s) = CPU_cpuRead d hi s
         in (l OR push_bit 8 h, 0, s))
      else (0, 0, s))"

subsection \<open>Instructions\<close>

text \<open>A taken branch: the branch cycles and the new program counter.\<close>

definition branch :: "bool \<Rightarrow> int \<Rightarrow> 'x nes \<Rightarrow> int \<times> 'x nes" where
  "branch taken addr s =
     (if taken
      then (if ((REG_PC s + 1) AND 0xff00) \<noteq> (addr AND 0xff00) then 2 else 1,
            s\<lparr>REG_PC := addr - 1\<rparr>)
      else (0, s))"

text \<open>
  The \<^verbatim>\<open>switch (instructionType)\<close> of \<^verbatim>\<open>emulate\<close>: the branch cycles and the state
  after the instruction. The cases stand in the order of the source.
\<close>

definition execute :: "'x devices \<Rightarrow> int \<Rightarrow> int \<Rightarrow> int \<Rightarrow> 'x nes \<Rightarrow> int \<times> 'x nes" where
  "execute d instructionType addrMode addr s =
     (if instructionType = 0 then
        (let (val, s) = CPU_cpuRead d addr s;
             temp = REG_ACC s + val + F_CARRY s
         in (0, s\<lparr>F_OVERFLOW := (if (REG_ACC s XOR val) AND 0x80 = 0 \<and>
                                      (REG_ACC s XOR temp) AND 0x80 \<noteq> 0 then 1 else 0),
                  F_CARRY := (if temp > 255 then 1 else 0),
                  F_SIGN := drop_bit 7 temp AND 1,
                  F_ZERO := temp AND 0xff,
                  REG_ACC := temp AND 0xff\<rparr>))
      else if instructionType = 1 then
        (let (val, s) = CPU_cpuRead d addr s;
             a = REG_ACC s AND val
         in (0, s\<lparr>REG_ACC := a, F_SIGN := drop_bit 7 a AND 1, F_ZERO := a\<rparr>))
      else if instructionType = 2 then
        (if addrMode = 4 then
           (let a = push_bit 1 (REG_ACC s) AND 0xff
            in (0, s\<lparr>F_CARRY := drop_bit 7 (REG_ACC s) AND 1, REG_ACC := a,
                     F_SIGN := drop_bit 7 a AND 1, F_ZERO := a\<rparr>))
         else
           (let (temp, s) = CPU_cpuRead d addr s;
                s = CPU_cpuWrite d addr temp s;
                s = s\<lparr>F_CARRY := drop_bit 7 temp AND 1\<rparr>;
                temp = push_bit 1 temp AND 0xff;
                s = s\<lparr>F_SIGN := drop_bit 7 temp AND 1, F_ZERO := temp\<rparr>
            in (0, CPU_cpuWrite d addr temp s)))
      else if instructionType = 3 then branch (F_CARRY s = 0) addr s
      else if instructionType = 4 then branch (F_CARRY s = 1) addr s
      else if instructionType = 5 then branch (F_ZERO s = 0) addr s
      else if instructionType = 6 then
        (let (temp, s) = CPU_cpuRead d addr s
         in (0, s\<lparr>F_SIGN := drop_bit 7 temp AND 1, F_OVERFLOW := drop_bit 6 temp AND 1,
                  F_ZERO := temp AND REG_ACC s\<rparr>))
      else if instructionType = 7 then branch (F_SIGN s = 1) addr s
      else if instructionType = 8 then branch (F_ZERO s \<noteq> 0) addr s
      else if instructionType = 9 then branch (F_SIGN s = 0) addr s
      else if instructionType = 10 then
        (let s = s\<lparr>REG_PC := REG_PC s + 2\<rparr>;
             s = CPU_push d (drop_bit 8 (REG_PC s) AND 0xff) s;
             s = CPU_push d (REG_PC s AND 0xff) s;
             s = s\<lparr>F_BRK := 1\<rparr>;
             s = CPU_push d (CPU_getStatus s) s;
             s = s\<lparr>F_INTERRUPT := 1\<rparr>;
             (vec, s) = CPU_cpuRead16bit d 0xfffe s
         in (0, s\<lparr>REG_PC := vec - 1\<rparr>))
      else if instructionType = 11 then branch (F_OVERFLOW s = 0) addr s
      else if instructionType = 12 then branch (F_OVERFLOW s = 1) addr s
      else if instructionType = 13 then (0, s\<lparr>F_CARRY := 0\<rparr>)
      else if instructionType = 14 then (0, s\<lparr>F_DECIMAL := 0\<rparr>)
      else if instructionType = 15 then (0, s\<lparr>F_INTERRUPT := 0\<rparr>)
      else if instructionType = 16 then (0, s\<lparr>F_OVERFLOW := 0\<rparr>)
      else if instructionType = 17 then
        (let (val, s) = CPU_cpuRead d addr s;
             temp = REG_ACC s - val
         in (0, s\<lparr>F_CARRY := (if temp \<ge> 0 then 1 else 0), F_SIGN := drop_bit 7 temp AND 1,
                  F_ZERO := temp AND 0xff\<rparr>))
      else if instructionType = 18 then
        (let (val, s) = CPU_cpuRead d addr s;
             temp = REG_X s - val
         in (0, s\<lparr>F_CARRY := (if temp \<ge> 0 then 1 else 0), F_SIGN := drop_bit 7 temp AND 1,
                  F_ZERO := temp AND 0xff\<rparr>))
      else if instructionType = 19 then
        (let (val, s) = CPU_cpuRead d addr s;
             temp = REG_Y s - val
         in (0, s\<lparr>F_CARRY := (if temp \<ge> 0 then 1 else 0), F_SIGN := drop_bit 7 temp AND 1,
                  F_ZERO := temp AND 0xff\<rparr>))
      else if instructionType = 20 then
        (let (val, s) = CPU_cpuRead d addr s;
             s = CPU_cpuWrite d addr val s;
             temp = (val - 1) AND 0xff;
             s = s\<lparr>F_SIGN := drop_bit 7 temp AND 1, F_ZERO := temp\<rparr>
         in (0, CPU_cpuWrite d addr temp s))
      else if instructionType = 21 then
        (let x = (REG_X s - 1) AND 0xff
         in (0, s\<lparr>REG_X := x, F_SIGN := drop_bit 7 x AND 1, F_ZERO := x\<rparr>))
      else if instructionType = 22 then
        (let y = (REG_Y s - 1) AND 0xff
         in (0, s\<lparr>REG_Y := y, F_SIGN := drop_bit 7 y AND 1, F_ZERO := y\<rparr>))
      else if instructionType = 23 then
        (let (val, s) = CPU_cpuRead d addr s;
             a = (val XOR REG_ACC s) AND 0xff
         in (0, s\<lparr>REG_ACC := a, F_SIGN := drop_bit 7 a AND 1, F_ZERO := a\<rparr>))
      else if instructionType = 24 then
        (let (val, s) = CPU_cpuRead d addr s;
             s = CPU_cpuWrite d addr val s;
             temp = (val + 1) AND 0xff;
             s = s\<lparr>F_SIGN := drop_bit 7 temp AND 1, F_ZERO := temp\<rparr>
         in (0, CPU_cpuWrite d addr temp s))
      else if instructionType = 25 then
        (let x = (REG_X s + 1) AND 0xff
         in (0, s\<lparr>REG_X := x, F_SIGN := drop_bit 7 x AND 1, F_ZERO := x\<rparr>))
      else if instructionType = 26 then
        (let y = (REG_Y s + 1) AND 0xff
         in (0, s\<lparr>REG_Y := y, F_SIGN := drop_bit 7 y AND 1, F_ZERO := y\<rparr>))
      else if instructionType = 27 then (0, s\<lparr>REG_PC := addr - 1\<rparr>)
      else if instructionType = 28 then
        (let pcToPush = REG_PC s;
             s = CPU_push d (drop_bit 8 pcToPush AND 0xff) s;
             s = CPU_push d (pcToPush AND 0xff) s
         in (0, s\<lparr>REG_PC := addr - 1\<rparr>))
      else if instructionType = 29 then
        (let (val, s) = CPU_cpuRead d addr s
         in (0, s\<lparr>REG_ACC := val, F_SIGN := drop_bit 7 val AND 1, F_ZERO := val\<rparr>))
      else if instructionType = 30 then
        (let (val, s) = CPU_cpuRead d addr s
         in (0, s\<lparr>REG_X := val, F_SIGN := drop_bit 7 val AND 1, F_ZERO := val\<rparr>))
      else if instructionType = 31 then
        (let (val, s) = CPU_cpuRead d addr s
         in (0, s\<lparr>REG_Y := val, F_SIGN := drop_bit 7 val AND 1, F_ZERO := val\<rparr>))
      else if instructionType = 32 then
        (let (temp, s) =
               (if addrMode = 4 then
                  (let a = drop_bit 1 (REG_ACC s)
                   in (a, s\<lparr>F_CARRY := REG_ACC s AND 1, REG_ACC := a\<rparr>))
                else
                  (let (temp, s) = CPU_cpuRead d addr s;
                       s = CPU_cpuWrite d addr temp s;
                       s = s\<lparr>F_CARRY := temp AND 1\<rparr>;
                       temp = drop_bit 1 temp
                   in (temp, CPU_cpuWrite d addr temp s)))
         in (0, s\<lparr>F_SIGN := 0, F_ZERO := temp\<rparr>))
      else if instructionType = 33 then (0, s)
      else if instructionType = 34 then
        (let (val, s) = CPU_cpuRead d addr s;
             a = (val OR REG_ACC s) AND 0xff
         in (0, s\<lparr>REG_ACC := a, F_SIGN := drop_bit 7 a AND 1, F_ZERO := a\<rparr>))
      else if instructionType = 35 then (0, CPU_push d (REG_ACC s) s)
      else if instructionType = 36 then (0, CPU_push d (CPU_getStatus s OR 0x10) s)
      else if instructionType = 37 then
        (let (val, s) = CPU_pull d s
         in (0, s\<lparr>REG_ACC := val, F_SIGN := drop_bit 7 val AND 1, F_ZERO := val\<rparr>))
      else if instructionType = 38 then
        (let (val, s) = CPU_pull d s in (0, CPU_setStatus val s))
      else if instructionType = 39 then
        (let (temp, s) =
               (if addrMode = 4 then
                  (let temp = REG_ACC s;
                       add = F_CARRY s;
                       s = s\<lparr>F_CARRY := drop_bit 7 temp AND 1\<rparr>;
                       temp = (push_bit 1 temp AND 0xff) + add
                   in (temp, s\<lparr>REG_ACC := temp\<rparr>))
                else
                  (let (temp, s) = CPU_cpuRead d addr s;
                       s = CPU_cpuWrite d addr temp s;
                       add = F_CARRY s;
                       s = s\<lparr>F_CARRY := drop_bit 7 temp AND 1\<rparr>;
                       temp = (push_bit 1 temp AND 0xff) + add
                   in (temp, CPU_cpuWrite d addr temp s)))
         in (0, s\<lparr>F_SIGN := drop_bit 7 temp AND 1, F_ZERO := temp\<rparr>))
      else if instructionType = 40 then
        (let (temp, s) =
               (if addrMode = 4 then
                  (let add = push_bit 7 (F_CARRY s);
                       s = s\<lparr>F_CARRY := REG_ACC s AND 1\<rparr>;
                       temp = drop_bit 1 (REG_ACC s) + add
                   in (temp, s\<lparr>REG_ACC := temp\<rparr>))
                else
                  (let (temp, s) = CPU_cpuRead d addr s;
                       s = CPU_cpuWrite d addr temp s;
                       add = push_bit 7 (F_CARRY s);
                       s = s\<lparr>F_CARRY := temp AND 1\<rparr>;
                       temp = drop_bit 1 temp + add
                   in (temp, CPU_cpuWrite d addr temp s)))
         in (0, s\<lparr>F_SIGN := drop_bit 7 temp AND 1, F_ZERO := temp\<rparr>))
      else if instructionType = 41 then
        (let (st, s) = CPU_pull d s;
             s = CPU_setStatus st s;
             (lo, s) = CPU_pull d s;
             s = s\<lparr>REG_PC := lo\<rparr>;
             (hi, s) = CPU_pull d s;
             s = s\<lparr>REG_PC := lo + push_bit 8 hi\<rparr>;
             s = s\<lparr>inNMI := False\<rparr>
         in (0, s\<lparr>REG_PC := REG_PC s - 1\<rparr>))
      else if instructionType = 42 then
        (let (lo, s) = CPU_pull d s;
             (hi, s) = CPU_pull d s
         in (0, s\<lparr>REG_PC := lo OR push_bit 8 hi\<rparr>))
      else if instructionType = 43 then
        (let (val, s) = CPU_cpuRead d addr s;
             temp = REG_ACC s - val - (1 - F_CARRY s)
         in (0, s\<lparr>F_SIGN := drop_bit 7 temp AND 1,
                  F_ZERO := temp AND 0xff,
                  F_OVERFLOW := (if (REG_ACC s XOR temp) AND 0x80 \<noteq> 0 \<and>
                                      (REG_ACC s XOR val) AND 0x80 \<noteq> 0 then 1 else 0),
                  F_CARRY := (if temp < 0 then 0 else 1),
                  REG_ACC := temp AND 0xff\<rparr>))
      else if instructionType = 44 then (0, s\<lparr>F_CARRY := 1\<rparr>)
      else if instructionType = 45 then (0, s\<lparr>F_DECIMAL := 1\<rparr>)
      else if instructionType = 46 then (0, s\<lparr>F_INTERRUPT := 1\<rparr>)
      else if instructionType = 47 then (0, CPU_cpuWrite d addr (REG_ACC s) s)
      else if instructionType = 48 then (0, CPU_cpuWrite d addr (REG_X s) s)
      else if instructionType = 49 then (0, CPU_cpuWrite d addr (REG_Y s) s)
      else if instructionType = 50 then
        (0, s\<lparr>REG_X := REG_ACC s, F_SIGN := drop_bit 7 (REG_ACC s) AND 1, F_ZERO := REG_ACC s\<rparr>)
      else if instructionType = 51 then
        (0, s\<lparr>REG_Y := REG_ACC s, F_SIGN := drop_bit 7 (REG_ACC s) AND 1, F_ZERO := REG_ACC s\<rparr>)
      else if instructionType = 52 then
        (0, s\<lparr>REG_X := REG_SP s AND 0xff, F_SIGN := drop_bit 7 (REG_SP s) AND 1,
              F_ZERO := REG_SP s AND 0xff\<rparr>)
      else if instructionType = 53 then
        (0, s\<lparr>REG_ACC := REG_X s, F_SIGN := drop_bit 7 (REG_X s) AND 1, F_ZERO := REG_X s\<rparr>)
      else if instructionType = 54 then (0, s\<lparr>REG_SP := REG_X s AND 0xff\<rparr>)
      else if instructionType = 55 then
        (0, s\<lparr>REG_ACC := REG_Y s, F_SIGN := drop_bit 7 (REG_Y s) AND 1, F_ZERO := REG_Y s\<rparr>)
      else if instructionType = 56 then
        (let (val, s) = CPU_cpuRead d addr s;
             temp = REG_ACC s AND val
         in (0, s\<lparr>F_CARRY := temp AND 1, REG_ACC := drop_bit 1 temp, F_ZERO := drop_bit 1 temp,
                  F_SIGN := 0\<rparr>))
      else if instructionType = 57 then
        (let (val, s) = CPU_cpuRead d addr s;
             a = REG_ACC s AND val
         in (0, s\<lparr>REG_ACC := a, F_ZERO := a, F_CARRY := drop_bit 7 a AND 1,
                  F_SIGN := drop_bit 7 a AND 1\<rparr>))
      else if instructionType = 58 then
        (let (val, s) = CPU_cpuRead d addr s;
             temp = REG_ACC s AND val;
             a = drop_bit 1 temp + push_bit 7 (F_CARRY s)
         in (0, s\<lparr>REG_ACC := a, F_ZERO := a, F_SIGN := F_CARRY s,
                  F_CARRY := drop_bit 7 temp AND 1,
                  F_OVERFLOW := (drop_bit 7 temp XOR drop_bit 6 temp) AND 1\<rparr>))
      else if instructionType = 59 then
        (let (val, s) = CPU_cpuRead d addr s;
             temp = (REG_X s AND REG_ACC s) - val
         in (0, s\<lparr>F_SIGN := drop_bit 7 temp AND 1,
                  F_ZERO := temp AND 0xff,
                  F_OVERFLOW := (if (REG_X s XOR temp) AND 0x80 \<noteq> 0 \<and>
                                      (REG_X s XOR val) AND 0x80 \<noteq> 0 then 1 else 0),
                  F_CARRY := (if temp < 0 then 0 else 1),
                  REG_X := temp AND 0xff\<rparr>))
      else if instructionType = 60 then
        (let (val, s) = CPU_cpuRead d addr s
         in (0, s\<lparr>REG_ACC := val, REG_X := val, F_ZERO := val, F_SIGN := drop_bit 7 val AND 1\<rparr>))
      else if instructionType = 61 then (0, CPU_cpuWrite d addr (REG_ACC s AND REG_X s) s)
      else if instructionType = 62 then
        (let (val, s) = CPU_cpuRead d addr s;
             s = CPU_cpuWrite d addr val s;
             temp = (val - 1) AND 0xff;
             s = CPU_cpuWrite d addr temp s;
             temp = REG_ACC s - temp
         in (0, s\<lparr>F_CARRY := (if temp \<ge> 0 then 1 else 0), F_SIGN := drop_bit 7 temp AND 1,
                  F_ZERO := temp AND 0xff\<rparr>))
      else if instructionType = 63 then
        (let (val, s) = CPU_cpuRead d addr s;
             s = CPU_cpuWrite d addr val s;
             temp = (val + 1) AND 0xff;
             s = CPU_cpuWrite d addr temp s;
             val = temp;
             temp = REG_ACC s - val - (1 - F_CARRY s)
         in (0, s\<lparr>F_SIGN := drop_bit 7 temp AND 1,
                  F_ZERO := temp AND 0xff,
                  F_OVERFLOW := (if (REG_ACC s XOR temp) AND 0x80 \<noteq> 0 \<and>
                                      (REG_ACC s XOR val) AND 0x80 \<noteq> 0 then 1 else 0),
                  F_CARRY := (if temp < 0 then 0 else 1),
                  REG_ACC := temp AND 0xff\<rparr>))
      else if instructionType = 64 then
        (let (val, s) = CPU_cpuRead d addr s;
             s = CPU_cpuWrite d addr val s;
             add = F_CARRY s;
             s = s\<lparr>F_CARRY := drop_bit 7 val AND 1\<rparr>;
             temp = (push_bit 1 val AND 0xff) + add;
             s = CPU_cpuWrite d addr temp s;
             a = REG_ACC s AND temp
         in (0, s\<lparr>REG_ACC := a, F_SIGN := drop_bit 7 a AND 1, F_ZERO := a\<rparr>))
      else if instructionType = 65 then
        (let (val, s) = CPU_cpuRead d addr s;
             s = CPU_cpuWrite d addr val s;
             add = push_bit 7 (F_CARRY s);
             s = s\<lparr>F_CARRY := val AND 1\<rparr>;
             temp = drop_bit 1 val + add;
             s = CPU_cpuWrite d addr temp s;
             val = temp;
             temp = REG_ACC s + val + F_CARRY s
         in (0, s\<lparr>F_OVERFLOW := (if (REG_ACC s XOR val) AND 0x80 = 0 \<and>
                                      (REG_ACC s XOR temp) AND 0x80 \<noteq> 0 then 1 else 0),
                  F_CARRY := (if temp > 255 then 1 else 0),
                  F_SIGN := drop_bit 7 temp AND 1,
                  F_ZERO := temp AND 0xff,
                  REG_ACC := temp AND 0xff\<rparr>))
      else if instructionType = 66 then
        (let (val, s) = CPU_cpuRead d addr s;
             s = CPU_cpuWrite d addr val s;
             s = s\<lparr>F_CARRY := drop_bit 7 val AND 1\<rparr>;
             temp = push_bit 1 val AND 0xff;
             s = CPU_cpuWrite d addr temp s;
             a = REG_ACC s OR temp
         in (0, s\<lparr>REG_ACC := a, F_SIGN := drop_bit 7 a AND 1, F_ZERO := a\<rparr>))
      else if instructionType = 67 then
        (let (val, s) = CPU_cpuRead d addr s;
             s = CPU_cpuWrite d addr val s;
             s = s\<lparr>F_CARRY := val AND 1\<rparr>;
             temp = drop_bit 1 val;
             s = CPU_cpuWrite d addr temp s;
             a = REG_ACC s XOR temp
         in (0, s\<lparr>REG_ACC := a, F_SIGN := drop_bit 7 a AND 1, F_ZERO := a\<rparr>))
      else if instructionType = 69 then (0, snd (CPU_cpuRead d addr s))
      else (0, s))"

subsection \<open>One instruction\<close>

text \<open>
  The head of \<^verbatim>\<open>emulate\<close>: a pending interrupt is dispatched before the next
  instruction is fetched.
\<close>

definition interrupt_dispatch :: "'x devices \<Rightarrow> 'x nes \<Rightarrow> 'x nes" where
  "interrupt_dispatch d s =
     (if irqRequested s then
        (let temp = F_CARRY s OR push_bit 1 (if F_ZERO s = 0 then 1 else 0) OR
                    push_bit 2 (F_INTERRUPT s) OR push_bit 3 (F_DECIMAL s) OR
                    push_bit 4 0 OR push_bit 5 (F_NOTUSED s) OR
                    push_bit 6 (F_OVERFLOW s) OR push_bit 7 (F_SIGN s);
             s = s\<lparr>REG_PC_NEW := REG_PC s, F_INTERRUPT_NEW := F_INTERRUPT s\<rparr>;
             s = (if irqType s = 0 then
                    (if F_INTERRUPT s \<noteq> 0 then s else CPU_doIrq d temp s)
                  else if irqType s = 1 then CPU_doNonMaskableInterrupt d temp s
                  else if irqType s = 2 then CPU_doResetInterrupt d s
                  else s);
             s = s\<lparr>REG_PC := REG_PC_NEW s, F_INTERRUPT := F_INTERRUPT_NEW s,
                   F_BRK := F_BRK_NEW s\<rparr>
         in if irqType s \<noteq> 0 then s\<lparr>irqRequested := False\<rparr> else s)
      else s)"

text \<open>
  \<^verbatim>\<open>emulate\<close> returns the cycles of the instruction. It is written here in three
  parts: \<open>run_decoded\<close> is the function from the point where the table entry
  \<open>opinf\<close> of the opcode at \<open>opaddr\<close> is known up to the point where the cycles are
  added to the cycle counter; \<open>emulate_body\<close> puts the interrupt dispatch and the opcode
  fetch in front of it; \<open>CPU_emulate\<close> then clocks the controllers. An opcode
  outside the table would read \<^verbatim>\<open>undefined\<close>, which every use below turns into 0.
\<close>

definition run_decoded :: "'x devices \<Rightarrow> int \<Rightarrow> int \<Rightarrow> 'x nes \<Rightarrow> int \<times> 'x nes" where
  "run_decoded d opaddr opinf s =
     (let opSize = drop_bit 16 opinf AND 0xff;
          cycles = drop_bit 24 opinf;
          addrMode = drop_bit 8 opinf AND 0xff;
          s = s\<lparr>cycleOffset := cycles - 1, REG_PC := (REG_PC s + opSize) AND 0xffff\<rparr>;
          (addr, pageCrossCycles, s) = addressing d addrMode opaddr s;
          addr = addr AND 0xffff;
          instructionType = opinf AND 0xff;
          s = (if pageCrossCycles \<noteq> 0 \<and> instructionType \<in> set readInstructionsWithPenalty
               then s\<lparr>cycleOffset := cycleOffset s + 1\<rparr> else s);
          (branchCycles, s) = execute d instructionType addrMode addr s;
          cycles = (if instructionType \<in> set readInstructionsWithPenalty
                    then cycles + pageCrossCycles else cycles);
          cycles = cycles + branchCycles
      in (cycles, s\<lparr>cycleCount := cycleCount s + cycles\<rparr>))"

definition emulate_body :: "'x devices \<Rightarrow> 'x nes \<Rightarrow> int \<times> 'x nes" where
  "emulate_body d s0 =
     (let s = interrupt_dispatch d s0;
          opaddr = (REG_PC s + 1) AND 0xffff;
          (opcode, s) = CPU_cpuRead d opaddr s;
          opinf = js_num (js_index OPDATA opcode);
          s = run_hook (map_option (\<lambda>f. f opaddr opcode) (mmap_recordCpuInstruction d)) s;
          s = run_hook (map_option (\<lambda>f. f opaddr opcode) (mmap_recordCpuInstructionHit d)) s
      in run_decoded d opaddr opinf s)"

definition CPU_emulate :: "'x devices \<Rightarrow> 'x nes \<Rightarrow> int \<times> 'x nes" where
  "CPU_emulate d s0 =
     (let (cycles, s) = emulate_body d s0;
          s = CPU_stepControllers s
      in (cycles, s\<lparr>instructionCount := instructionCount s + 1\<rparr>))"

definition CPU_step :: "'x devices \<Rightarrow> 'x nes \<Rightarrow> int \<times> 'x nes" where
  "CPU_step d s =
     (if cyclesToHalt s > 0
      then (1, s\<lparr>cyclesToHalt := cyclesToHalt s - 1, cycleCount := cycleCount s + 1\<rparr>)
      else CPU_emulate d s)"

subsection \<open>The bus accesses of an instruction\<close>

text \<open>
  \<open>new_accesses s s'\<close> is what \<open>busLog\<close> gained between \<open>s\<close> and \<open>s'\<close>.
  \<open>replay_strobes l c\<close> applies to a controller the writes to \<^verbatim>\<open>$4016\<close> found in
  \<open>l\<close>, in order: the only way a bus access changes a controller.
  \<open>bus_footprint s s'\<close> says that \<open>s'\<close> comes from \<open>s\<close> by bus accesses and by
  changes of other fields: the log has grown by some accesses \<open>l\<close>, the controllers
  are the old ones with the strobes of \<open>l\<close> replayed, and a read flag is set exactly
  when it was set before or \<open>l\<close> holds a read of that port.
\<close>

definition new_accesses :: "'x nes \<Rightarrow> 'x nes \<Rightarrow> bus_access list" where
  "new_accesses s s' = drop (length (busLog s)) (busLog s')"

fun replay_strobes :: "bus_access list \<Rightarrow> controller \<Rightarrow> controller" where
  "replay_strobes [] c = c"
| "replay_strobes (BusRead a # l) c = replay_strobes l c"
| "replay_strobes (BusWrite a v # l) c =
     replay_strobes l (if a = 0x4016 then Controller_strobe v c else c)"

definition bus_footprint :: "'x nes \<Rightarrow> 'x nes \<Rightarrow> bool" where
  "bus_footprint s s' \<longleftrightarrow>
     (\<exists>l. busLog s' = busLog s @ l \<and>
          controller1 s' = replay_strobes l (controller1 s) \<and>
          controller2 s' = replay_strobes l (controller2 s) \<and>
          (controller1Read s' \<longleftrightarrow> controller1Read s \<or> BusRead 0x4016 \<in> set l) \<and>
          (controller2Read s' \<longleftrightarrow> controller2Read s \<or> BusRead 0x4017 \<in> set l))"

section \<open>Example states\<close>

text \<open>
  Concrete states on which the theorems below are instantiated: a controller with
  button A held while the strobe is high; an NROM cartridge with 8 KiB of PRG-RAM; a
  CNROM cartridge whose 32 KiB PRG image holds the low byte of each offset; an MMC3
  cartridge of sixteen 8 KiB PRG banks in the state its constructor and the power-on
  part of \<^verbatim>\<open>loadROM\<close> leave, apart from the RAM pattern, taken as zero here.
\<close>

definition pad_A_held :: controller where
  "pad_A_held = Controller_strobe 1 (Controller_buttonDown 0 Controller_new)"

definition nrom_example :: mapper where
  "nrom_example =
     \<lparr>prgData = replicate 0x8000 0xEA, prgPagesMap = (\<lambda>slot. slot * 0x2000),
      chrPagesMap = (\<lambda>slot. slot * 0x400), prgRam = replicate 0x2000 0,
      prgBankCount = 4, prgBanks8k = 4, chrBanks1k = 8, fourScreen = False\<rparr>"

definition cnrom_example :: mapper003 where
  "cnrom_example = Mapper003_reset
     \<lparr>prgData = map (\<lambda>i. int i mod 0x100) [0..<0x8000], prgPagesMap = (\<lambda>slot. 0),
      chrPagesMap = (\<lambda>slot. 0), prgRam = [],
      prgBankCount = 4, prgBanks8k = 4, chrBanks1k = 32, fourScreen = False,
      chrBank = 0\<rparr>"

definition mmc3_example :: mapper004 where
  "mmc3_example = Mapper004_reset (Mapper004_updateBanks
     \<lparr>prgData = replicate 0x20000 0xEA, prgPagesMap = (\<lambda>slot. 0),
      chrPagesMap = (\<lambda>slot. 0), prgRam = replicate 0x2000 0,
      prgBankCount = 16, prgBanks8k = 16, chrBanks1k = 128, fourScreen = False,
      reg = [0, 0, 0, 0, 0, 0, 0, 0], prgOffsets = [0, 0, 0, 0],
      chrOffsets = [0, 0, 0, 0, 0, 0, 0, 0],
      prgMode = 0, chrMode = 0, bankSelect = 0,
      irqEnabled = False, irqCounter = 0, irqLatch = 0, irqReload = False,
      prgRamEnabled = True, prgRamWriteProtect = False\<rparr>)"

definition cpu_idle :: irq_state where
  "cpu_idle = \<lparr>irqRequested = False, irqType = IRQ_NORMAL\<rparr>"

text \<open>
  The MMC3 of the interrupt scenario: latch \<^verbatim>\<open>$10\<close> written to \<^verbatim>\<open>$C000\<close>, reload
  requested at \<^verbatim>\<open>$C001\<close>, interrupt enabled at \<^verbatim>\<open>$E001\<close>.
\<close>

definition mmc3_armed :: mapper004 where
  "mmc3_armed = fst (Mapper004_cpuWrite 0xE001 0
                  (Mapper004_cpuWrite 0xC001 0
                    (Mapper004_cpuWrite 0xC000 0x10
                      (mmc3_example, cpu_idle, HORIZONTAL_MIRRORING))))"

text \<open>
  A console for the CPU: a cartridge that answers reads at and above \<^verbatim>\<open>$8000\<close> from a
  fixed image and nothing else, an APU whose registers yield no value, a PPU that
  returns 0. \<open>at_8000\<close> is the CPU after \<^verbatim>\<open>reset()\<close> with no interrupt pending, about
  to fetch at \<^verbatim>\<open>$8000\<close>.
\<close>

definition flat_devices :: "(int \<Rightarrow> int) \<Rightarrow> unit devices" where
  "flat_devices rom =
     \<lparr>catchUp = (\<lambda>e. e), ppu_readRegister = (\<lambda>r e. (0, e)),
      ppu_writeRegister = (\<lambda>r v e. e), ppu_doDMA = (\<lambda>v e. e),
      ppu_scanline = (\<lambda>e. 0), ppu_cycle = (\<lambda>e. 0), ppu_framebuffer = (\<lambda>e i. None),
      zapper_x = (\<lambda>e. 0), zapper_y = (\<lambda>e. 0), zapper_fired = (\<lambda>e. False),
      papu_present = True, papu_readReg = (\<lambda>a e. (None, e)), papu_writeReg = (\<lambda>a v e. e),
      mmap_cpuRead = (\<lambda>a e. (if a \<ge> 0x8000 then Some (rom a) else None, e)),
      mmap_cpuWrite = (\<lambda>a v e. e), mmap_onNmiVectorRead = None,
      mmap_recordCpuInstruction = None, mmap_recordCpuInstructionHit = None,
      nes_recordPpuTraceAccess = None\<rparr>"

definition blank_nes :: "unit nes" where
  "blank_nes =
     \<lparr>irqRequested = False, irqType = 0, mem = (\<lambda>a. 0), cyclesToHalt = 0,
      REG_ACC = 0, REG_X = 0, REG_Y = 0, REG_SP = 0, REG_PC = 0, REG_PC_NEW = 0,
      REG_STATUS = 0, F_CARRY = 0, F_DECIMAL = 0, F_INTERRUPT = 0, F_INTERRUPT_NEW = 0,
      F_OVERFLOW = 0, F_SIGN = 0, F_ZERO = 0, F_NOTUSED = 0, F_BRK = 0, F_BRK_NEW = 0,
      cycleCount = 0, dataBus = 0, controller1Read = False, controller2Read = False,
      cycleOffset = 0, instructionCount = 0, inNMI = False, nmiStartInstruction = 0,
      controller1 = Controller_new, controller2 = Controller_new, ext = (), busLog = []\<rparr>"

definition at_8000 :: "unit nes" where
  "at_8000 = (CPU_reset blank_nes)\<lparr>irqRequested := False\<rparr>"

text \<open>
  Programs at \<^verbatim>\<open>$8000\<close>, the rest of the image being NOP (\<^verbatim>\<open>$EA\<close>):
  \<^verbatim>\<open>BF FF 80\<close> is LAX \<^verbatim>\<open>$80FF,Y\<close>; \<^verbatim>\<open>B9 FF 80\<close> is LDA \<^verbatim>\<open>$80FF,Y\<close>;
  \<^verbatim>\<open>FF FF 80\<close> is ISC \<^verbatim>\<open>$80FF,X\<close>; \<^verbatim>\<open>AD 16 40\<close> is LDA \<^verbatim>\<open>$4016\<close>.
\<close>

definition program :: "int \<Rightarrow> int \<Rightarrow> int \<Rightarrow> int \<Rightarrow> int" where
  "program b0 b1 b2 a =
     (if a = 0x8000 then b0 else if a = 0x8001 then b1 else if a = 0x8002 then b2 else 0xEA)"

definition irq_pending_masked :: "unit nes" where
  "irq_pending_masked = at_8000\<lparr>irqRequested := True, irqType := IRQ_NORMAL, F_INTERRUPT := 1\<rparr>"

definition pad_latched :: "unit nes" where
  "pad_latched = at_8000\<lparr>controller1 := Controller_strobe 0 pad_A_held\<rparr>"

section \<open>Controller: serial protocol and direction exclusion\<close>

lemma lt8_cases:
  "(b::nat) < 8 \<Longrightarrow> b = 0 \<or> b = 1 \<or> b = 2 \<or> b = 3 \<or> b = 4 \<or> b = 5 \<or> b = 6 \<or> b = 7"
  by arith

lemma buttonDown_keeps_exclusion:
  assumes "b < 8" and "\<not> opposite_held c"
  shows "\<not> opposite_held (Controller_buttonDown b c)"
  using lt8_cases[OF assms(1)] assms(2)
  by (auto simp: opposite_held_def Controller_buttonDown_def Controller_getDuplicateMask_def
        js_shl1_def Let_def bit_and_iff bit_or_iff bit_push_bit_iff bit_1_iff)

lemma buttonUp_keeps_exclusion:
  assumes "\<not> opposite_held c"
  shows "\<not> opposite_held (Controller_buttonUp b c)"
  using assms by (auto simp: opposite_held_def Controller_buttonUp_def bit_and_iff)

lemma foldl_calls_keep_exclusion:
  "\<forall>c\<in>set cs. call_button c < 8 \<Longrightarrow> \<not> opposite_held s
     \<Longrightarrow> \<not> opposite_held (foldl apply_call s cs)"
proof (induction cs arbitrary: s)
  case Nil
  then show ?case by simp
next
  case (Cons a cs)
  have "\<not> opposite_held (apply_call s a)"
    using Cons.prems
    by (cases a) (simp_all add: buttonDown_keeps_exclusion buttonUp_keeps_exclusion)
  then show ?case using Cons by simp
qed

text \<open>
  Claim C9. Starting from the power-on controller, after any finite sequence of
  \<^verbatim>\<open>buttonDown\<close> and \<^verbatim>\<open>buttonUp\<close> calls whose button indices are the eight
  buttons of the pad (0 to 7), the current button state never holds Up (bit 4) together
  with Down (bit 5), nor Left (bit 6) together with Right (bit 7).
\<close>

theorem no_opposite_directions:
  "\<forall>c\<in>set cs. call_button c < 8 \<Longrightarrow> \<not> opposite_held (run_calls cs Controller_new)"
  unfolding run_calls_def
  by (rule foldl_calls_keep_exclusion) (simp_all add: opposite_held_def Controller_new_def)

theorem no_opposite_directions_witness:
  "list_all (\<lambda>c. call_button c < 8)
     [ButtonDown 5, ButtonDown 4, ButtonDown 6, ButtonDown 7, ButtonUp 0] \<and>
   \<not> opposite_held
       (run_calls [ButtonDown 5, ButtonDown 4, ButtonDown 6, ButtonDown 7, ButtonUp 0]
          Controller_new) \<and>
   currentState
       (run_calls [ButtonDown 5, ButtonDown 4, ButtonDown 6, ButtonDown 7, ButtonUp 0]
          Controller_new) = 0x90"
  using no_opposite_directions
          [of "[ButtonDown 5, ButtonDown 4, ButtonDown 6, ButtonDown 7, ButtonUp 0]"]
  by (simp add: run_calls_def Controller_new_def Controller_buttonDown_def
        Controller_buttonUp_def Controller_getDuplicateMask_def js_shl1_def)

lemma serial_reads_latched:
  assumes "strobeByte c = 0" "shiftRegister c = int j"
  shows "serial_reads n c =
     map (\<lambda>k. if k < 8 then 0x40 OR (drop_bit k (strobedState c) AND 1) else 0x41)
       [j..<j + n]"
  using assms
proof (induction n arbitrary: c j)
  case 0
  then show ?case by simp
next
  case (Suc n)
  show ?case
  proof (cases "j < 8")
    case True
    have c1: "strobeByte (Controller_clock c) = 0"
      "shiftRegister (Controller_clock c) = int (Suc j)"
      "strobedState (Controller_clock c) = strobedState c"
      using Suc.prems True by (simp_all add: Controller_clock_def)
    have r: "Controller_read c = 0x40 OR (drop_bit j (strobedState c) AND 1)"
      using Suc.prems True by (simp add: Controller_read_def)
    show ?thesis
      using Suc.IH[OF c1(1) c1(2)] r True c1(3) by (simp add: upt_rec[of j])
  next
    case False
    have c1: "Controller_clock c = c"
      using Suc.prems False by (simp add: Controller_clock_def)
    have r: "Controller_read c = 0x41"
      using Suc.prems False by (simp add: Controller_read_def)
    have ih: "serial_reads n c =
        map (\<lambda>k. if k < 8 then 0x40 OR (drop_bit k (strobedState c) AND 1) else 0x41)
          [j..<j + n]"
      using Suc.IH[OF Suc.prems] .
    have "map (\<lambda>k. if k < 8 then 0x40 OR (drop_bit k (strobedState c) AND 1) else (0x41::int))
            [j..<j + n] = replicate n 0x41"
      using False by (auto simp: map_replicate_const[symmetric] intro!: nth_equalityI)
    moreover
    have "map (\<lambda>k. if k < 8 then 0x40 OR (drop_bit k (strobedState c) AND 1) else (0x41::int))
            [j..<j + Suc n] = replicate (Suc n) 0x41"
      using False by (auto simp del: replicate_Suc upt_Suc intro!: nth_equalityI)
    ultimately show ?thesis using r c1 ih by simp
  qed
qed

lemma or_and_absorb: "(x OR y) AND x = (x::int)"
  by (rule bit_eqI) (auto simp: bit_and_iff bit_or_iff)

text \<open>
  Claim C4. When the strobe line is high and a value with bit 0 clear is written, the
  current button state is latched; the reads that follow, one per instruction, return
  \<^verbatim>\<open>$40\<close> ORed with bit 0, bit 1, ... bit 7 of the latched state (button A first), and
  every read after the eighth returns \<^verbatim>\<open>$41\<close>, that is 1 in bit 0. While the strobe
  line is high a read returns \<^verbatim>\<open>$40\<close> ORed with the live state of button A. Every byte
  read has \<^verbatim>\<open>$40\<close> ORed into it.
\<close>

theorem controller_serial_protocol:
  "(strobeByte c = 1 \<and> data AND 1 = 0 \<longrightarrow>
      strobedState (Controller_strobe data c) = currentState c \<and>
      serial_reads n (Controller_strobe data c) =
        map (\<lambda>k. if k < 8 then 0x40 OR (drop_bit k (currentState c) AND 1) else 0x41)
          [0..<n]) \<and>
   (strobeByte c = 1 \<longrightarrow> Controller_read c = 0x40 OR (currentState c AND 1)) \<and>
   Controller_read c AND 0x40 = 0x40"
proof (intro conjI impI)
  assume a: "strobeByte c = 1 \<and> data AND 1 = 0"
  then show "strobedState (Controller_strobe data c) = currentState c"
    by (simp add: Controller_strobe_def)
  have "strobeByte (Controller_strobe data c) = 0"
    "shiftRegister (Controller_strobe data c) = int 0"
    using a by (simp_all add: Controller_strobe_def)
  from serial_reads_latched[OF this, of n]
  show "serial_reads n (Controller_strobe data c) =
        map (\<lambda>k. if k < 8 then 0x40 OR (drop_bit k (currentState c) AND 1) else 0x41)
          [0..<n]"
    using a by (simp add: Controller_strobe_def)
next
  assume "strobeByte c = 1"
  then show "Controller_read c = 0x40 OR (currentState c AND 1)"
    by (simp add: Controller_read_def)
next
  show "Controller_read c AND 0x40 = 0x40"
    by (simp add: Controller_read_def Let_def or_and_absorb)
qed

theorem controller_serial_protocol_witness:
  "strobeByte pad_A_held = 1 \<and> (0::int) AND 1 = 0 \<and>
   serial_reads 10 (Controller_strobe 0 pad_A_held) =
     [0x41, 0x40, 0x40, 0x40, 0x40, 0x40, 0x40, 0x40, 0x41, 0x41] \<and>
   Controller_read pad_A_held = 0x41"
  using controller_serial_protocol [of pad_A_held 0 10]
  by (simp add: pad_A_held_def Controller_strobe_def Controller_buttonDown_def
        Controller_new_def Controller_getDuplicateMask_def js_shl1_def upt_rec)

section \<open>MMC3: scanline counter and soft reset\<close>

text \<open>
  Claim C1. On every A12 clock of the MMC3: when the counter is zero or the reload flag
  is set, the counter is loaded from the latch, the reload flag is cleared and no
  interrupt is requested; otherwise the counter is decremented, and \<^verbatim>\<open>requestIrq\<close> is
  called exactly when that decrement takes the counter from 1 to 0 while the interrupt
  is enabled. After \<^verbatim>\<open>requestIrq\<close> an interrupt request is pending at the CPU.
\<close>

theorem mmc3_scanline_counter:
  "Mapper004_clockScanline (m, cpu) =
     (if irqCounter m = 0 \<or> irqReload m
      then (m\<lparr>irqCounter := irqLatch m, irqReload := False\<rparr>, cpu)
      else (m\<lparr>irqCounter := irqCounter m - 1\<rparr>,
            if irqCounter m = 1 \<and> irqEnabled m then CPU_requestIrq IRQ_NORMAL cpu else cpu)) \<and>
   irqRequested (CPU_requestIrq IRQ_NORMAL cpu)"
  by (auto simp: Mapper004_clockScanline_def Let_def CPU_requestIrq_def)

text \<open>
  The scenario of the specification: latch \<^verbatim>\<open>$10\<close>, reload, enable; the interrupt is
  pending after the seventeenth rising edge and not before.
\<close>

lemma mmc3_armed_fields:
  "irqCounter mmc3_armed = 0 \<and> irqLatch mmc3_armed = 0x10 \<and> irqReload mmc3_armed \<and>
   irqEnabled mmc3_armed"
  by (simp add: mmc3_armed_def mmc3_example_def Mapper004_cpuWrite_def Mapper004_reset_def
        Mapper004_updateBanks_def Let_def)

lemma clock_17_edges:
  assumes "irqLatch m = 0x10" and "irqReload m" and "irqEnabled m" and "\<not> irqRequested cpu"
  shows "\<not> irqRequested (snd ((Mapper004_clockScanline ^^ 16) (m, cpu))) \<and>
         irqRequested (snd ((Mapper004_clockScanline ^^ 17) (m, cpu))) \<and>
         irqType (snd ((Mapper004_clockScanline ^^ 17) (m, cpu))) = IRQ_NORMAL"
  using assms
  by (simp add: eval_nat_numeral funpow_swap1 Mapper004_clockScanline_def CPU_requestIrq_def
        Let_def)

lemma mmc3_irq_after_17_edges:
  "\<not> irqRequested (snd ((Mapper004_clockScanline ^^ 16) (mmc3_armed, cpu_idle))) \<and>
   irqRequested (snd ((Mapper004_clockScanline ^^ 17) (mmc3_armed, cpu_idle))) \<and>
   irqType (snd ((Mapper004_clockScanline ^^ 17) (mmc3_armed, cpu_idle))) = IRQ_NORMAL"
  using mmc3_armed_fields by (intro clock_17_edges) (simp_all add: cpu_idle_def)

lemma typed_store_take: "take (nat i) (typed_store w xs i v) = take (nat i) xs"
  by (simp add: typed_store_def)

text \<open>
  Claim C8. A soft reset of the MMC3 keeps the eight bank registers, the bank-select
  index, the PRG and CHR mode bits, the IRQ counter, latch, reload flag and enable flag,
  the PRG-RAM and its protection bits, the CHR offsets and the PRG offsets of the first
  three slots; it only stores the offset of the last 8 KiB PRG bank in the slot of
  \<^verbatim>\<open>$E000-$FFFF\<close>.
\<close>

theorem mmc3_soft_reset_frame:
  "reg (Mapper004_reset m) = reg m \<and>
   bankSelect (Mapper004_reset m) = bankSelect m \<and>
   prgMode (Mapper004_reset m) = prgMode m \<and>
   chrMode (Mapper004_reset m) = chrMode m \<and>
   irqCounter (Mapper004_reset m) = irqCounter m \<and>
   irqLatch (Mapper004_reset m) = irqLatch m \<and>
   irqReload (Mapper004_reset m) = irqReload m \<and>
   irqEnabled (Mapper004_reset m) = irqEnabled m \<and>
   prgRamEnabled (Mapper004_reset m) = prgRamEnabled m \<and>
   prgRamWriteProtect (Mapper004_reset m) = prgRamWriteProtect m \<and>
   prgRam (Mapper004_reset m) = prgRam m \<and>
   chrOffsets (Mapper004_reset m) = chrOffsets m \<and>
   take 3 (prgOffsets (Mapper004_reset m)) = take 3 (prgOffsets m) \<and>
   Mapper004_reset m = m\<lparr>prgOffsets := prgOffsets (Mapper004_reset m)\<rparr> \<and>
   (length (prgOffsets m) = 4 \<longrightarrow>
      prgOffsets (Mapper004_reset m) =
        (prgOffsets m)[3 := (0x2000 * (get8kPrgBankCount m - 1)) mod 0x100000000])"
  using typed_store_take[of 3]
  by (simp add: Mapper004_reset_def get8kPrgBankCount_def)
     (simp add: typed_store_def push_bit_eq_mult mult.commute)

theorem mmc3_soft_reset_frame_witness:
  "length (prgOffsets mmc3_armed) = 4 \<and>
   irqLatch (Mapper004_reset mmc3_armed) = 0x10 \<and>
   irqReload (Mapper004_reset mmc3_armed) \<and>
   irqEnabled (Mapper004_reset mmc3_armed) \<and>
   prgOffsets (Mapper004_reset mmc3_armed) = [0, 0, 0x1C000, 0x1E000] \<and>
   Mapper004_reset mmc3_armed = mmc3_armed"
  using mmc3_soft_reset_frame [of mmc3_armed]
  by (simp add: mmc3_armed_def mmc3_example_def Mapper004_cpuWrite_def
        Mapper004_reset_def Mapper004_updateBanks_def get8kPrgBankCount_def
        get1kChrBankCount_def typed_store_def reg_at_def js_index_def js_num_def Let_def)

section \<open>PRG-RAM round trip\<close>

text \<open>
  Claim C6. For every address in \<^verbatim>\<open>$6000-$7FFF\<close> and every byte, a mapper write
  followed by a mapper read of the same address returns the byte: on NROM whenever the
  PRG-RAM array has a cell for the address, on MMC3 when the 8 KiB PRG-RAM is enabled
  and not write-protected.
\<close>

theorem prg_ram_write_then_read:
  assumes "0x6000 \<le> a" and "a < 0x8000" and "0 \<le> b" and "b < 0x100"
  shows "(a - 0x6000 < int (length (prgRam m0)) \<longrightarrow>
            Mapper000_cpuRead a (Mapper000_cpuWrite a b m0) = Some b) \<and>
         (length (prgRam m4) = 0x2000 \<and> prgRamEnabled m4 \<and> \<not> prgRamWriteProtect m4 \<longrightarrow>
            Mapper004_cpuRead a (fst (Mapper004_cpuWrite a b (m4, cpu, mir))) = Some b)"
  using assms
  by (auto simp: Mapper000_cpuRead_def Mapper000_cpuWrite_def Mapper004_cpuRead_def
        Mapper004_cpuWrite_def typed_store_def js_index_def)

theorem prg_ram_write_then_read_witness:
  "(0x6000::int) \<le> 0x6123 \<and> (0x6123::int) < 0x8000 \<and> (0::int) \<le> 0xA5 \<and> (0xA5::int) < 0x100 \<and>
   0x6123 - 0x6000 < int (length (prgRam nrom_example)) \<and>
   length (prgRam mmc3_example) = 0x2000 \<and> prgRamEnabled mmc3_example \<and>
   \<not> prgRamWriteProtect mmc3_example \<and>
   Mapper000_cpuRead 0x6123 (Mapper000_cpuWrite 0x6123 0xA5 nrom_example) = Some 0xA5 \<and>
   Mapper004_cpuRead 0x6123
     (fst (Mapper004_cpuWrite 0x6123 0xA5 (mmc3_example, cpu_idle, HORIZONTAL_MIRRORING))) =
     Some 0xA5"
proof -
  have h: "length (prgRam nrom_example) = 0x2000" "length (prgRam mmc3_example) = 0x2000"
    "prgRamEnabled mmc3_example" "\<not> prgRamWriteProtect mmc3_example"
    by (simp_all add: nrom_example_def mmc3_example_def Mapper004_reset_def
          Mapper004_updateBanks_def Let_def)
  show ?thesis
    using h prg_ram_write_then_read
            [of "0x6123" "0xA5" nrom_example mmc3_example cpu_idle HORIZONTAL_MIRRORING]
    by simp
qed

section \<open>CNROM: bus conflict\<close>

lemma updateBanks3_prg_chrBank:
  "prgPagesMap (Mapper003_updateBanks (m\<lparr>chrBank := k\<rparr>)) = prgPagesMap (Mapper003_updateBanks m)"
  by (simp add: Mapper003_updateBanks_def Let_def switch32kPrgBank_def switch16kPrgBank_def
        switch8kChrBank_def get32kPrgBankCount_def get16kPrgBankCount_def)

lemma updateBanks3_prg_idem:
  "prgPagesMap (Mapper003_updateBanks (Mapper003_updateBanks m)) =
   prgPagesMap (Mapper003_updateBanks m)"
  by (auto simp: Mapper003_updateBanks_def Let_def switch32kPrgBank_def switch16kPrgBank_def
        switch8kChrBank_def get32kPrgBankCount_def get16kPrgBankCount_def fun_eq_iff)

lemma updateBanks3_chrBank: "chrBank (Mapper003_updateBanks n) = chrBank n"
  by (simp add: Mapper003_updateBanks_def Let_def switch32kPrgBank_def switch16kPrgBank_def
        switch8kChrBank_def)

lemma updateBanks3_prgData: "prgData (Mapper003_updateBanks n) = prgData n"
  by (simp add: Mapper003_updateBanks_def Let_def switch32kPrgBank_def switch16kPrgBank_def
        switch8kChrBank_def)

text \<open>
  The PRG page map that \<^verbatim>\<open>updateBanks\<close> sets up is a fixed point of
  \<^verbatim>\<open>updateBanks\<close>; \<^verbatim>\<open>reset\<close> establishes it and every write keeps it.
\<close>

lemma cnrom_reset_fixes_prg:
  "prgPagesMap (Mapper003_updateBanks (Mapper003_reset m)) = prgPagesMap (Mapper003_reset m)"
  by (simp add: Mapper003_reset_def updateBanks3_prg_idem)

lemma cnrom_write_keeps_fixed_prg:
  assumes "prgPagesMap (Mapper003_updateBanks m) = prgPagesMap m"
  shows "prgPagesMap (Mapper003_updateBanks (Mapper003_cpuWrite a v m)) =
         prgPagesMap (Mapper003_cpuWrite a v m)"
  using assms by (simp add: Mapper003_cpuWrite_def Let_def updateBanks3_prg_idem)

lemma updateBanks3_chrPagesMap:
  "chrPagesMap (Mapper003_updateBanks n) =
     (\<lambda>slot. (mask_bank (chrBank n) (get8kChrBankCount n) * 8 + slot) * 0x400)"
  by (simp add: Mapper003_updateBanks_def Let_def switch32kPrgBank_def switch16kPrgBank_def
        switch8kChrBank_def get8kChrBankCount_def)

text \<open>
  Claim C7. On CNROM a CPU write of \<open>v\<close> to an address \<open>a\<close> at or above \<^verbatim>\<open>$8000\<close>
  sets the CHR bank to \<open>v AND r\<close> masked to its low two bits, where \<open>r\<close> is the PRG-ROM
  byte that a read of \<open>a\<close> returns (0 stands for a read past the end of the image), and
  \<^verbatim>\<open>updateBanks\<close> switches that 8 KiB bank in: the eight slots of the CHR page map
  hold the offsets of the eight 1 KiB pages of the bank, the bank number masked to the
  banks of the cartridge. The PRG image is untouched, and where the PRG page map is the
  fixed one that \<^verbatim>\<open>updateBanks\<close> sets up, the write leaves the page map, and hence
  every PRG read, as it was.
\<close>

theorem cnrom_bus_conflict:
  assumes "a \<ge> 0x8000"
  shows "chrBank (Mapper003_cpuWrite a v m) = (v AND js_num (Mapper003_cpuRead a m)) AND 0x03 \<and>
         (Mapper003_cpuRead a m = Some r \<longrightarrow>
            chrBank (Mapper003_cpuWrite a v m) = (v AND r) AND 0x03) \<and>
         chrPagesMap (Mapper003_cpuWrite a v m) =
           (\<lambda>slot. (mask_bank ((v AND js_num (Mapper003_cpuRead a m)) AND 0x03)
                             (get8kChrBankCount m) * 8 + slot) * 0x400) \<and>
         (Mapper003_cpuRead a m = Some r \<longrightarrow>
            chrPagesMap (Mapper003_cpuWrite a v m) =
              (\<lambda>slot. (mask_bank ((v AND r) AND 0x03) (get8kChrBankCount m) * 8 + slot) * 0x400)) \<and>
         chrPagesMap (Mapper003_cpuWrite a v m) =
           chrPagesMap (switch8kChrBank (chrBank (Mapper003_cpuWrite a v m)) m) \<and>
         prgData (Mapper003_cpuWrite a v m) = prgData m \<and>
         (prgPagesMap (Mapper003_updateBanks m) = prgPagesMap m \<longrightarrow>
            prgPagesMap (Mapper003_cpuWrite a v m) = prgPagesMap m \<and>
            (\<forall>x. Mapper003_cpuRead x (Mapper003_cpuWrite a v m) = Mapper003_cpuRead x m))"
proof -
  have 1: "chrBank (Mapper003_cpuWrite a v m) =
             (v AND js_num (Mapper003_cpuRead a m)) AND 0x03"
    using assms
    by (simp add: Mapper003_cpuWrite_def Mapper003_cpuRead_def Let_def updateBanks3_chrBank)
  have 2: "Mapper003_cpuRead a m = Some r \<longrightarrow>
             chrBank (Mapper003_cpuWrite a v m) = (v AND r) AND 0x03"
    by (simp add: 1 js_num_def)
  have 3: "prgData (Mapper003_cpuWrite a v m) = prgData m"
    using assms by (simp add: Mapper003_cpuWrite_def Let_def updateBanks3_prgData)
  have 4: "prgPagesMap (Mapper003_cpuWrite a v m) = prgPagesMap m"
    if "prgPagesMap (Mapper003_updateBanks m) = prgPagesMap m"
    using assms that by (simp add: Mapper003_cpuWrite_def Let_def updateBanks3_prg_chrBank)
  have 5: "Mapper003_cpuRead x (Mapper003_cpuWrite a v m) = Mapper003_cpuRead x m"
    if "prgPagesMap (Mapper003_updateBanks m) = prgPagesMap m" for x
    using 4[OF that] 3 by (simp add: Mapper003_cpuRead_def Let_def)
  have 6: "chrPagesMap (Mapper003_cpuWrite a v m) =
             (\<lambda>slot. (mask_bank ((v AND js_num (Mapper003_cpuRead a m)) AND 0x03)
                               (get8kChrBankCount m) * 8 + slot) * 0x400)"
    using assms
    by (simp add: Mapper003_cpuWrite_def Mapper003_cpuRead_def Let_def
          updateBanks3_chrPagesMap get8kChrBankCount_def)
  have 7: "Mapper003_cpuRead a m = Some r \<longrightarrow>
             chrPagesMap (Mapper003_cpuWrite a v m) =
               (\<lambda>slot. (mask_bank ((v AND r) AND 0x03) (get8kChrBankCount m) * 8 + slot) * 0x400)"
    by (simp add: 6 js_num_def)
  have 8: "chrPagesMap (Mapper003_cpuWrite a v m) =
             chrPagesMap (switch8kChrBank (chrBank (Mapper003_cpuWrite a v m)) m)"
    by (simp add: 6 1 switch8kChrBank_def Let_def)
  show ?thesis using 1 2 3 4 5 6 7 8 by blast
qed

theorem cnrom_bus_conflict_witness:
  "(0x8005::int) \<ge> 0x8000 \<and>
   Mapper003_cpuRead 0x8005 cnrom_example = Some 5 \<and>
   prgPagesMap (Mapper003_updateBanks cnrom_example) = prgPagesMap cnrom_example \<and>
   chrBank cnrom_example = 0 \<and>
   map (chrPagesMap cnrom_example) [0, 1, 2, 3, 4, 5, 6, 7] =
     [0, 0x400, 0x800, 0xC00, 0x1000, 0x1400, 0x1800, 0x1C00] \<and>
   chrBank (Mapper003_cpuWrite 0x8005 0xFF cnrom_example) = 1 \<and>
   map (chrPagesMap (Mapper003_cpuWrite 0x8005 0xFF cnrom_example)) [0, 1, 2, 3, 4, 5, 6, 7] =
     [0x2000, 0x2400, 0x2800, 0x2C00, 0x3000, 0x3400, 0x3800, 0x3C00] \<and>
   prgPagesMap (Mapper003_cpuWrite 0x8005 0xFF cnrom_example) = prgPagesMap cnrom_example"
proof -
  have r: "Mapper003_cpuRead 0x8005 cnrom_example = Some 5"
    by (simp add: cnrom_example_def Mapper003_reset_def Mapper003_cpuRead_def
          Mapper003_updateBanks_def switch32kPrgBank_def switch8kChrBank_def
          get32kPrgBankCount_def mask_bank_def js_index_def Let_def)
  have f: "prgPagesMap (Mapper003_updateBanks cnrom_example) = prgPagesMap cnrom_example"
    unfolding cnrom_example_def by (rule cnrom_reset_fixes_prg)
  have g: "get8kChrBankCount cnrom_example = 4" "chrBank cnrom_example = 0"
    "map (chrPagesMap cnrom_example) [0, 1, 2, 3, 4, 5, 6, 7] =
       [0, 0x400, 0x800, 0xC00, 0x1000, 0x1400, 0x1800, 0x1C00]"
    by (simp_all add: cnrom_example_def Mapper003_reset_def updateBanks3_chrPagesMap
          updateBanks3_chrBank get8kChrBankCount_def mask_bank_def)
       (simp_all add: Mapper003_updateBanks_def switch32kPrgBank_def switch16kPrgBank_def
          switch8kChrBank_def Let_def)
  show ?thesis
    using r f g cnrom_bus_conflict [of "0x8005" "0xFF" cnrom_example 5]
    by (simp add: mask_bank_def)
qed

section \<open>CPU: the opcode table\<close>

text \<open>The table that \<^verbatim>\<open>buildOpData\<close> computes, entry by entry.\<close>

lemma OPDATA_table [code]:
  "OPDATA =
     [
      0x0701020A, 0x06020A22, 0x02010221, 0x08020A3F, 0x03020045, 0x03020022, 0x05020002, 0x0502003F,
      0x03010224, 0x02020522, 0x02010402, 0x02020538, 0x04030845, 0x04030322, 0x06030302, 0x0603033F,
      0x02020109, 0x05020B22, 0x02010221, 0x08020B3F, 0x04020645, 0x04020622, 0x06020602, 0x0602063F,
      0x0201020D, 0x04030922, 0x02010221, 0x0703093F, 0x04030845, 0x04030822, 0x07030802, 0x0703083F,
      0x0603031C, 0x06020A01, 0x02010221, 0x08020A3D, 0x03020006, 0x03020001, 0x05020027, 0x0502003D,
      0x04010226, 0x02020501, 0x02010427, 0x02020538, 0x04030306, 0x04030301, 0x06030327, 0x0603033D,
      0x02020107, 0x05020B01, 0x02010221, 0x08020B3D, 0x04020645, 0x04020601, 0x06020627, 0x0602063D,
      0x0201022C, 0x04030901, 0x02010221, 0x0703093D, 0x04030845, 0x04030801, 0x07030827, 0x0703083D,
      0x06010229, 0x06020A17, 0x02010221, 0x08020A40, 0x03020045, 0x03020017, 0x05020020, 0x05020040,
      0x03010223, 0x02020517, 0x02010420, 0x02020538, 0x0303031B, 0x04030317, 0x06030320, 0x06030340,
      0x0202010B, 0x05020B17, 0x02010221, 0x08020B40, 0x04020645, 0x04020617, 0x06020620, 0x06020640,
      0x0201020F, 0x04030917, 0x02010221, 0x07030940, 0x04030845, 0x04030817, 0x07030820, 0x07030840,
      0x0601022A, 0x06020A00, 0x02010221, 0x08020A3E, 0x03020045, 0x03020000, 0x05020028, 0x0502003E,
      0x04010225, 0x02020500, 0x02010428, 0x02020538, 0x05030C1B, 0x04030300, 0x06030328, 0x0603033E,
      0x0202010C, 0x05020B00, 0x02010221, 0x08020B3E, 0x04020645, 0x04020600, 0x06020628, 0x0602063E,
      0x0201022E, 0x04030900, 0x02010221, 0x0703093E, 0x04030845, 0x04030800, 0x07030828, 0x0703083E,
      0x02020544, 0x06020A2F, 0x02020544, 0x06020A3A, 0x03020031, 0x0302002F, 0x03020030, 0x0302003A,
      0x02010216, 0x02020544, 0x02010235, 0x02010221, 0x04030331, 0x0403032F, 0x04030330, 0x0403033A,
      0x02020103, 0x06020B2F, 0x02010221, 0x02010221, 0x04020631, 0x0402062F, 0x04020730, 0x0402073A,
      0x02010237, 0x0503092F, 0x02010236, 0x02010221, 0x02010221, 0x0503082F, 0x02010221, 0x02010221,
      0x0202051F, 0x06020A1D, 0x0202051E, 0x06020A39, 0x0302001F, 0x0302001D, 0x0302001E, 0x03020039,
      0x02010233, 0x0202051D, 0x02010232, 0x02010221, 0x0403031F, 0x0403031D, 0x0403031E, 0x04030339,
      0x02020104, 0x05020B1D, 0x02010221, 0x05020B39, 0x0402061F, 0x0402061D, 0x0402071E, 0x04020739,
      0x02010210, 0x0403091D, 0x02010234, 0x02010221, 0x0403081F, 0x0403081D, 0x0403091E, 0x04030939,
      0x02020513, 0x06020A11, 0x02020544, 0x08020A3B, 0x03020013, 0x03020011, 0x05020014, 0x0502003B,
      0x0201021A, 0x02020511, 0x02010215, 0x02020538, 0x04030313, 0x04030311, 0x06030314, 0x0603033B,
      0x02020108, 0x05020B11, 0x02010221, 0x08020B3B, 0x04020645, 0x04020611, 0x06020614, 0x0602063B,
      0x0201020E, 0x04030911, 0x02010221, 0x0703093B, 0x04030845, 0x04030811, 0x07030814, 0x0703083B,
      0x02020512, 0x06020A2B, 0x02020544, 0x08020A3C, 0x03020012, 0x0302002B, 0x05020018, 0x0502003C,
      0x02010219, 0x0202052B, 0x02010221, 0x02010221, 0x04030312, 0x0403032B, 0x06030318, 0x0603033C,
      0x02020105, 0x05020B2B, 0x02010221, 0x08020B3C, 0x04020645, 0x0402062B, 0x06020618, 0x0602063C,
      0x0201022D, 0x0403092B, 0x02010221, 0x0703093C, 0x04030845, 0x0403082B, 0x07030818, 0x0703083C
     ]"
  by code_simp

section \<open>CPU: the data bus latch\<close>

text \<open>
  Claim C5. After every \<^verbatim>\<open>cpuRead\<close> the data bus latch holds the value returned;
  after every \<^verbatim>\<open>cpuWrite\<close> it holds the value written; a read in
  \<^verbatim>\<open>$4000-$401F\<close> other than the controller ports, when there is no APU or the APU
  yields no value, and a read of the cartridge space for which the mapper yields no
  value, return the latch as it was.
\<close>

theorem cpu_data_bus_latch:
  "dataBus (snd (CPU_cpuRead d a s)) = fst (CPU_cpuRead d a s) \<and>
   dataBus (CPU_cpuWrite d a v s) = v \<and>
   (0x4000 \<le> a \<and> a < 0x4020 \<and> a \<noteq> 0x4016 \<and> a \<noteq> 0x4017 \<and>
    (papu_present d \<longrightarrow> fst (papu_readReg d a (ext s)) = None)
      \<longrightarrow> fst (CPU_cpuRead d a s) = dataBus s) \<and>
   (0x4020 \<le> a \<and> fst (mmap_cpuRead d a (ext s)) = None
      \<longrightarrow> fst (CPU_cpuRead d a s) = dataBus s)"
proof (intro conjI impI)
  show "dataBus (snd (CPU_cpuRead d a s)) = fst (CPU_cpuRead d a s)"
    by (simp add: CPU_cpuRead_def Let_def split_def)
  show "dataBus (CPU_cpuWrite d a v s) = v"
    by (simp add: CPU_cpuWrite_def Let_def run_hook_def split: option.split)
next
  assume "0x4000 \<le> a \<and> a < 0x4020 \<and> a \<noteq> 0x4016 \<and> a \<noteq> 0x4017 \<and>
    (papu_present d \<longrightarrow> fst (papu_readReg d a (ext s)) = None)"
  then show "fst (CPU_cpuRead d a s) = dataBus s"
    by (simp add: CPU_cpuRead_def Let_def split_def)
next
  assume "0x4020 \<le> a \<and> fst (mmap_cpuRead d a (ext s)) = None"
  then show "fst (CPU_cpuRead d a s) = dataBus s"
    by (simp add: CPU_cpuRead_def Let_def split_def)
qed

theorem cpu_data_bus_latch_witness:
  "fst (CPU_cpuRead (flat_devices (program 0xA9 0x55 0xEA)) 0x8001 at_8000) = 0x55 \<and>
   dataBus (snd (CPU_cpuRead (flat_devices (program 0xA9 0x55 0xEA)) 0x8001 at_8000)) = 0x55 \<and>
   dataBus (CPU_cpuWrite (flat_devices (program 0xA9 0x55 0xEA)) 0x0200 0x77 at_8000) = 0x77 \<and>
   fst (CPU_cpuRead (flat_devices (program 0xA9 0x55 0xEA)) 0x4018
          (CPU_cpuWrite (flat_devices (program 0xA9 0x55 0xEA)) 0x0200 0x77 at_8000)) = 0x77 \<and>
   fst (CPU_cpuRead (flat_devices (program 0xA9 0x55 0xEA)) 0x5000
          (CPU_cpuWrite (flat_devices (program 0xA9 0x55 0xEA)) 0x0200 0x77 at_8000)) = 0x77"
proof -
  let ?d = "flat_devices (program 0xA9 0x55 0xEA)"
  let ?s = "CPU_cpuWrite ?d 0x0200 0x77 at_8000"
  have r: "fst (CPU_cpuRead ?d 0x8001 at_8000) = 0x55"
    by (simp add: CPU_cpuRead_def flat_devices_def program_def Let_def)
  have p: "papu_present ?d \<longrightarrow> fst (papu_readReg ?d 0x4018 (ext ?s)) = None"
    "fst (mmap_cpuRead ?d 0x5000 (ext ?s)) = None"
    by (simp_all add: flat_devices_def)
  show ?thesis
    using r p cpu_data_bus_latch [of ?d "0x8001" at_8000 "0x77"]
      cpu_data_bus_latch [of ?d "0x0200" at_8000 "0x77"]
      cpu_data_bus_latch [of ?d "0x4018" ?s]
      cpu_data_bus_latch [of ?d "0x5000" ?s]
    by simp
qed

section \<open>CPU: the pending-interrupt slot across an instruction\<close>

text \<open>
  No bus access and no instruction assigns \<^verbatim>\<open>irqRequested\<close> or \<^verbatim>\<open>irqType\<close>; only
  the interrupt dispatch at the head of \<^verbatim>\<open>emulate\<close> does.
\<close>

lemma irq_cpuRead [simp]:
  "irqRequested (snd (CPU_cpuRead d a s)) = irqRequested s"
  "irqType (snd (CPU_cpuRead d a s)) = irqType s"
  by (simp_all add: CPU_cpuRead_def Let_def split_def)

lemma irq_run_hook [simp]:
  "irqRequested (run_hook h s) = irqRequested s"
  "irqType (run_hook h s) = irqType s"
  by (simp_all add: run_hook_def split: option.split)

lemma irq_cpuWrite [simp]:
  "irqRequested (CPU_cpuWrite d a v s) = irqRequested s"
  "irqType (CPU_cpuWrite d a v s) = irqType s"
  by (simp_all add: CPU_cpuWrite_def Let_def)

lemma irq_cpuRead16bit [simp]:
  "irqRequested (snd (CPU_cpuRead16bit d a s)) = irqRequested s"
  "irqType (snd (CPU_cpuRead16bit d a s)) = irqType s"
  by (simp_all add: CPU_cpuRead16bit_def Let_def split_def)

lemma irq_push [simp]:
  "irqRequested (CPU_push d v s) = irqRequested s"
  "irqType (CPU_push d v s) = irqType s"
  by (simp_all add: CPU_push_def Let_def)

lemma irq_pull [simp]:
  "irqRequested (snd (CPU_pull d s)) = irqRequested s"
  "irqType (snd (CPU_pull d s)) = irqType s"
  by (simp_all add: CPU_pull_def Let_def)

lemma irq_setStatus [simp]:
  "irqRequested (CPU_setStatus v s) = irqRequested s"
  "irqType (CPU_setStatus v s) = irqType s"
  by (simp_all add: CPU_setStatus_def)

lemma irq_branch [simp]:
  "irqRequested (snd (branch t a s)) = irqRequested s"
  "irqType (snd (branch t a s)) = irqType s"
  by (simp_all add: branch_def)

lemma irq_indexed [simp]:
  "irqRequested (snd (snd (indexed d i a s))) = irqRequested s"
  "irqType (snd (snd (indexed d i a s))) = irqType s"
  by (simp_all add: indexed_def)

lemma irq_addressing [simp]:
  "irqRequested (snd (snd (addressing d m a s))) = irqRequested s"
  "irqType (snd (snd (addressing d m a s))) = irqType s"
  by (simp_all add: addressing_def Let_def split_def)

lemma irq_execute [simp]:
  "irqRequested (snd (execute d i m a s)) = irqRequested s"
  "irqType (snd (execute d i m a s)) = irqType s"
  by (simp_all add: execute_def Let_def split_def)

lemma irq_stepControllers [simp]:
  "irqRequested (CPU_stepControllers s) = irqRequested s"
  "irqType (CPU_stepControllers s) = irqType s"
  by (simp_all add: CPU_stepControllers_def Let_def)

lemma irq_handlers [simp]:
  "irqRequested (CPU_doIrq d st s) = irqRequested s"
  "irqType (CPU_doIrq d st s) = irqType s"
  "irqRequested (CPU_doNonMaskableInterrupt d st s) = irqRequested s"
  "irqType (CPU_doNonMaskableInterrupt d st s) = irqType s"
  "irqRequested (CPU_doResetInterrupt d s) = irqRequested s"
  "irqType (CPU_doResetInterrupt d s) = irqType s"
  by (simp_all add: CPU_doIrq_def CPU_doNonMaskableInterrupt_def CPU_doResetInterrupt_def
        Let_def split_def)

lemma dispatch_irq_slot:
  "irqRequested (interrupt_dispatch d s) = (irqRequested s \<and> irqType s = IRQ_NORMAL)"
  "irqType (interrupt_dispatch d s) = irqType s"
  by (simp_all add: interrupt_dispatch_def Let_def IRQ_NORMAL_def)

lemma emulate_body_irq_slot:
  "irqRequested (snd (emulate_body d s)) = irqRequested (interrupt_dispatch d s)"
  "irqType (snd (emulate_body d s)) = irqType (interrupt_dispatch d s)"
  by (simp_all add: emulate_body_def run_decoded_def Let_def split_def)

lemma emulate_irq_slot:
  "irqRequested (snd (CPU_emulate d s)) = (irqRequested s \<and> irqType s = IRQ_NORMAL)"
  "irqType (snd (CPU_emulate d s)) = irqType s"
  by (simp_all add: CPU_emulate_def Let_def split_def emulate_body_irq_slot dispatch_irq_slot)

text \<open>
  What holds of the claim: a non-maskable interrupt and a reset leave the slot when
  they are acknowledged; a pending IRQ stays in the slot across the instruction
  boundary, whether it is serviced or masked by the I flag, until \<^verbatim>\<open>clearIrq\<close>.
\<close>

lemma nmi_and_reset_cleared_on_acknowledge:
  assumes "irqRequested s" and "irqType s = IRQ_NMI \<or> irqType s = IRQ_RESET"
  shows "\<not> irqRequested (snd (CPU_emulate d s))"
  using assms by (auto simp: emulate_irq_slot IRQ_NORMAL_def IRQ_NMI_def IRQ_RESET_def)

lemma irq_level_triggered:
  assumes "irqRequested s" and "irqType s = IRQ_NORMAL"
  shows "irqRequested (snd (CPU_emulate d s))"
    and "\<not> irqRequested (CPU_clearIrq IRQ_NORMAL (snd (CPU_emulate d s)))"
  using assms by (simp_all add: emulate_irq_slot CPU_clearIrq_def)

lemma irq_serviced_when_unmasked:
  assumes "irqRequested s" and "irqType s = IRQ_NORMAL" and "F_INTERRUPT s = 0"
  shows "interrupt_dispatch d s =
           (let t = CPU_doIrq d
                      (F_CARRY s OR push_bit 1 (if F_ZERO s = 0 then 1 else 0) OR
                       push_bit 2 (F_INTERRUPT s) OR push_bit 3 (F_DECIMAL s) OR
                       push_bit 4 0 OR push_bit 5 (F_NOTUSED s) OR
                       push_bit 6 (F_OVERFLOW s) OR push_bit 7 (F_SIGN s))
                      (s\<lparr>REG_PC_NEW := REG_PC s, F_INTERRUPT_NEW := F_INTERRUPT s\<rparr>)
            in t\<lparr>REG_PC := REG_PC_NEW t, F_INTERRUPT := F_INTERRUPT_NEW t,
                 F_BRK := F_BRK_NEW t\<rparr>)"
  using assms by (simp add: interrupt_dispatch_def Let_def IRQ_NORMAL_def)

text \<open>
  Claim C2. The claim says that interrupts are dispatched at instruction boundaries
  with priority RESET over NMI over IRQ, that an NMI is cleared when acknowledged, and
  that an IRQ stays pending until its device calls \<^verbatim>\<open>clearIrq\<close>, also when another
  kind of interrupt arrives and is acknowledged. The code keeps one slot for all three
  kinds. After one \<^verbatim>\<open>emulate\<close> a request is pending exactly when an IRQ was in the
  slot before; \<^verbatim>\<open>requestIrq\<close> with NMI overwrites whatever the slot holds, a pending
  IRQ or a pending RESET alike; hence after \<^verbatim>\<open>requestIrq(NMI)\<close> and one \<^verbatim>\<open>emulate\<close>
  nothing is pending, although no \<^verbatim>\<open>clearIrq\<close> was called: the IRQ that was pending
  is lost, as the last conjunct shows on a CPU whose IRQ is pending and masked.
\<close>

theorem nmi_arrival_discards_pending_irq:
  "irqRequested (snd (CPU_emulate d s)) = (irqRequested s \<and> irqType s = IRQ_NORMAL) \<and>
   CPU_requestIrq IRQ_NMI s = s\<lparr>irqRequested := True, irqType := IRQ_NMI\<rparr> \<and>
   irqType (CPU_requestIrq IRQ_NMI (CPU_requestIrq IRQ_RESET s)) = IRQ_NMI \<and>
   \<not> irqRequested (snd (CPU_emulate d (CPU_requestIrq IRQ_NMI s))) \<and>
   irqRequested irq_pending_masked \<and> irqType irq_pending_masked = IRQ_NORMAL \<and>
   irqRequested (snd (CPU_emulate (flat_devices (program 0xEA 0xEA 0xEA)) irq_pending_masked)) \<and>
   \<not> irqRequested (snd (CPU_emulate (flat_devices (program 0xEA 0xEA 0xEA))
                        (CPU_requestIrq IRQ_NMI irq_pending_masked)))"
  by (simp add: emulate_irq_slot CPU_requestIrq_def IRQ_NORMAL_def IRQ_NMI_def IRQ_RESET_def
        irq_pending_masked_def)

section \<open>CPU: controllers and the bus accesses of an instruction\<close>

lemma replay_strobes_append:
  "replay_strobes (l @ l') c = replay_strobes l' (replay_strobes l c)"
  by (induction l c rule: replay_strobes.induct) simp_all

lemma footprint_refl [simp]: "bus_footprint s s"
  by (simp add: bus_footprint_def)

lemma footprint_field_update [simp]:
  "bus_footprint s0 (irqRequested_update f0 s) = bus_footprint s0 s"
  "bus_footprint s0 (irqType_update f1 s) = bus_footprint s0 s"
  "bus_footprint s0 (mem_update f2 s) = bus_footprint s0 s"
  "bus_footprint s0 (cyclesToHalt_update f3 s) = bus_footprint s0 s"
  "bus_footprint s0 (REG_ACC_update f4 s) = bus_footprint s0 s"
  "bus_footprint s0 (REG_X_update f5 s) = bus_footprint s0 s"
  "bus_footprint s0 (REG_Y_update f6 s) = bus_footprint s0 s"
  "bus_footprint s0 (REG_SP_update f7 s) = bus_footprint s0 s"
  "bus_footprint s0 (REG_PC_update f8 s) = bus_footprint s0 s"
  "bus_footprint s0 (REG_PC_NEW_update f9 s) = bus_footprint s0 s"
  "bus_footprint s0 (REG_STATUS_update f10 s) = bus_footprint s0 s"
  "bus_footprint s0 (F_CARRY_update f11 s) = bus_footprint s0 s"
  "bus_footprint s0 (F_DECIMAL_update f12 s) = bus_footprint s0 s"
  "bus_footprint s0 (F_INTERRUPT_update f13 s) = bus_footprint s0 s"
  "bus_footprint s0 (F_INTERRUPT_NEW_update f14 s) = bus_footprint s0 s"
  "bus_footprint s0 (F_OVERFLOW_update f15 s) = bus_footprint s0 s"
  "bus_footprint s0 (F_SIGN_update f16 s) = bus_footprint s0 s"
  "bus_footprint s0 (F_ZERO_update f17 s) = bus_footprint s0 s"
  "bus_footprint s0 (F_NOTUSED_update f18 s) = bus_footprint s0 s"
  "bus_footprint s0 (F_BRK_update f19 s) = bus_footprint s0 s"
  "bus_footprint s0 (F_BRK_NEW_update f20 s) = bus_footprint s0 s"
  "bus_footprint s0 (cycleCount_update f21 s) = bus_footprint s0 s"
  "bus_footprint s0 (dataBus_update f22 s) = bus_footprint s0 s"
  "bus_footprint s0 (cycleOffset_update f23 s) = bus_footprint s0 s"
  "bus_footprint s0 (instructionCount_update f24 s) = bus_footprint s0 s"
  "bus_footprint s0 (inNMI_update f25 s) = bus_footprint s0 s"
  "bus_footprint s0 (nmiStartInstruction_update f26 s) = bus_footprint s0 s"
  "bus_footprint s0 (ext_update f27 s) = bus_footprint s0 s"
  by (simp_all add: bus_footprint_def)

lemma footprint_cpuRead [simp]:
  assumes "bus_footprint s0 s"
  shows "bus_footprint s0 (snd (CPU_cpuRead d a s))"
proof -
  from assms obtain l where l: "busLog s = busLog s0 @ l"
    "controller1 s = replay_strobes l (controller1 s0)"
    "controller2 s = replay_strobes l (controller2 s0)"
    "controller1Read s \<longleftrightarrow> controller1Read s0 \<or> BusRead 0x4016 \<in> set l"
    "controller2Read s \<longleftrightarrow> controller2Read s0 \<or> BusRead 0x4017 \<in> set l"
    unfolding bus_footprint_def by blast
  have "busLog (snd (CPU_cpuRead d a s)) = busLog s0 @ (l @ [BusRead a])"
    "controller1 (snd (CPU_cpuRead d a s)) = replay_strobes (l @ [BusRead a]) (controller1 s0)"
    "controller2 (snd (CPU_cpuRead d a s)) = replay_strobes (l @ [BusRead a]) (controller2 s0)"
    "controller1Read (snd (CPU_cpuRead d a s)) \<longleftrightarrow>
       controller1Read s0 \<or> BusRead 0x4016 \<in> set (l @ [BusRead a])"
    "controller2Read (snd (CPU_cpuRead d a s)) \<longleftrightarrow>
       controller2Read s0 \<or> BusRead 0x4017 \<in> set (l @ [BusRead a])"
    using l by (auto simp: CPU_cpuRead_def Let_def split_def replay_strobes_append)
  then show ?thesis unfolding bus_footprint_def by blast
qed

lemma footprint_run_hook [simp]: "bus_footprint s0 (run_hook h s) = bus_footprint s0 s"
  by (simp add: run_hook_def split: option.split)

lemma footprint_cpuWrite [simp]:
  assumes "bus_footprint s0 s"
  shows "bus_footprint s0 (CPU_cpuWrite d a v s)"
proof -
  from assms obtain l where l: "busLog s = busLog s0 @ l"
    "controller1 s = replay_strobes l (controller1 s0)"
    "controller2 s = replay_strobes l (controller2 s0)"
    "controller1Read s \<longleftrightarrow> controller1Read s0 \<or> BusRead 0x4016 \<in> set l"
    "controller2Read s \<longleftrightarrow> controller2Read s0 \<or> BusRead 0x4017 \<in> set l"
    unfolding bus_footprint_def by blast
  have "busLog (CPU_cpuWrite d a v s) = busLog s0 @ (l @ [BusWrite a v])"
    "controller1 (CPU_cpuWrite d a v s) = replay_strobes (l @ [BusWrite a v]) (controller1 s0)"
    "controller2 (CPU_cpuWrite d a v s) = replay_strobes (l @ [BusWrite a v]) (controller2 s0)"
    "controller1Read (CPU_cpuWrite d a v s) \<longleftrightarrow>
       controller1Read s0 \<or> BusRead 0x4016 \<in> set (l @ [BusWrite a v])"
    "controller2Read (CPU_cpuWrite d a v s) \<longleftrightarrow>
       controller2Read s0 \<or> BusRead 0x4017 \<in> set (l @ [BusWrite a v])"
    using l by (auto simp: CPU_cpuWrite_def Let_def run_hook_def replay_strobes_append
                  split: option.split)
  then show ?thesis unfolding bus_footprint_def by blast
qed

lemma footprint_cpuRead16bit [simp]:
  "bus_footprint s0 s \<Longrightarrow> bus_footprint s0 (snd (CPU_cpuRead16bit d a s))"
  by (simp add: CPU_cpuRead16bit_def Let_def split_def)

lemma footprint_push [simp]:
  "bus_footprint s0 s \<Longrightarrow> bus_footprint s0 (CPU_push d v s)"
  by (simp add: CPU_push_def Let_def)

lemma footprint_pull [simp]:
  "bus_footprint s0 s \<Longrightarrow> bus_footprint s0 (snd (CPU_pull d s))"
  by (simp add: CPU_pull_def Let_def)

lemma footprint_setStatus [simp]:
  "bus_footprint s0 (CPU_setStatus v s) = bus_footprint s0 s"
  by (simp add: CPU_setStatus_def)

lemma footprint_branch [simp]:
  "bus_footprint s0 (snd (branch t a s)) = bus_footprint s0 s"
  by (simp add: branch_def)

lemma footprint_indexed [simp]:
  "bus_footprint s0 s \<Longrightarrow> bus_footprint s0 (snd (snd (indexed d i a s)))"
  by (simp add: indexed_def)

lemma footprint_addressing [simp]:
  "bus_footprint s0 s \<Longrightarrow> bus_footprint s0 (snd (snd (addressing d m a s)))"
  by (simp add: addressing_def Let_def split_def)

lemma footprint_execute [simp]:
  "bus_footprint s0 s \<Longrightarrow> bus_footprint s0 (snd (execute d i m a s))"
  by (auto simp: execute_def Let_def split_def)

lemma footprint_handlers [simp]:
  "bus_footprint s0 s \<Longrightarrow> bus_footprint s0 (CPU_doIrq d st s)"
  "bus_footprint s0 s \<Longrightarrow> bus_footprint s0 (CPU_doNonMaskableInterrupt d st s)"
  "bus_footprint s0 s \<Longrightarrow> bus_footprint s0 (CPU_doResetInterrupt d s)"
  by (simp_all add: CPU_doIrq_def CPU_doNonMaskableInterrupt_def CPU_doResetInterrupt_def
        Let_def split_def)

lemma footprint_dispatch [simp]:
  "bus_footprint s0 s \<Longrightarrow> bus_footprint s0 (interrupt_dispatch d s)"
  by (simp add: interrupt_dispatch_def Let_def)

lemma footprint_run_decoded [simp]:
  "bus_footprint s0 s \<Longrightarrow> bus_footprint s0 (snd (run_decoded d opaddr opinf s))"
  by (simp add: run_decoded_def Let_def split_def)

lemma footprint_emulate_body:
  "bus_footprint s (snd (emulate_body d s))"
  by (simp add: emulate_body_def Let_def split_def)

lemma cpuRead_keeps_controllers:
  "controller1 (snd (CPU_cpuRead d a s)) = controller1 s"
  "controller2 (snd (CPU_cpuRead d a s)) = controller2 s"
  by (simp_all add: CPU_cpuRead_def Let_def split_def)

lemma Controller_read_values: "Controller_read c = 0x40 \<or> Controller_read c = 0x41"
proof -
  have b: "x AND 1 = 0 \<or> x AND 1 = 1" for x :: int
    by (simp add: and_one_eq) presburger
  show ?thesis
    using b[of "currentState c"] b[of "drop_bit (nat (shiftRegister c)) (strobedState c)"]
    by (auto simp: Controller_read_def Let_def)
qed

lemma cpuRead_port1: "fst (CPU_cpuRead d 0x4016 s) = Controller_read (controller1 s)"
  by (simp add: CPU_cpuRead_def Let_def)

lemma cpuRead_port2: "fst (CPU_cpuRead d 0x4017 s) AND 0xE7 = Controller_read (controller2 s)"
  using Controller_read_values[of "controller2 s"]
  by (auto simp: CPU_cpuRead_def Let_def)

lemma replay_strobes_shift:
  "0 \<le> shiftRegister c \<Longrightarrow>
     0 \<le> shiftRegister (replay_strobes l c) \<and>
     shiftRegister (replay_strobes l c) \<le> shiftRegister c"
proof (induction l c rule: replay_strobes.induct)
  case (3 a v l c)
  let ?c = "if a = 0x4016 then Controller_strobe v c else c"
  have s: "0 \<le> shiftRegister ?c" "shiftRegister ?c \<le> shiftRegister c"
    using "3.prems" by (simp_all add: Controller_strobe_def Let_def)
  from "3.IH"[OF s(1)] s(2) show ?case
    by simp
qed simp_all

lemma stepControllers_effect:
  "controller1 (CPU_stepControllers s) =
     (if controller1Read s then Controller_clock (controller1 s) else controller1 s)"
  "controller2 (CPU_stepControllers s) =
     (if controller2Read s then Controller_clock (controller2 s) else controller2 s)"
  "\<not> controller1Read (CPU_stepControllers s)"
  "\<not> controller2Read (CPU_stepControllers s)"
  "busLog (CPU_stepControllers s) = busLog s"
  by (simp_all add: CPU_stepControllers_def Let_def)

lemma emulate_controllers:
  assumes "\<not> controller1Read s" and "\<not> controller2Read s"
  shows "\<exists>l. busLog (snd (CPU_emulate d s)) = busLog s @ l \<and>
     controller1 (snd (CPU_emulate d s)) =
       (if BusRead 0x4016 \<in> set l then Controller_clock (replay_strobes l (controller1 s))
        else replay_strobes l (controller1 s)) \<and>
     controller2 (snd (CPU_emulate d s)) =
       (if BusRead 0x4017 \<in> set l then Controller_clock (replay_strobes l (controller2 s))
        else replay_strobes l (controller2 s)) \<and>
     \<not> controller1Read (snd (CPU_emulate d s)) \<and>
     \<not> controller2Read (snd (CPU_emulate d s))"
proof -
  let ?b = "snd (emulate_body d s)"
  from footprint_emulate_body[of s d] obtain l where l: "busLog ?b = busLog s @ l"
    "controller1 ?b = replay_strobes l (controller1 s)"
    "controller2 ?b = replay_strobes l (controller2 s)"
    "controller1Read ?b \<longleftrightarrow> controller1Read s \<or> BusRead 0x4016 \<in> set l"
    "controller2Read ?b \<longleftrightarrow> controller2Read s \<or> BusRead 0x4017 \<in> set l"
    unfolding bus_footprint_def by blast
  have e: "snd (CPU_emulate d s) =
             (CPU_stepControllers ?b)\<lparr>instructionCount := instructionCount (CPU_stepControllers ?b) + 1\<rparr>"
    by (simp add: CPU_emulate_def Let_def split_def)
  show ?thesis
    using l assms by (intro exI[of _ l]) (simp add: e stepControllers_effect)
qed

lemma Controller_clock_shift:
  "shiftRegister (Controller_clock c) \<le> shiftRegister c + 1"
  by (simp add: Controller_clock_def)

text \<open>
  Claim C10. A read of a controller port leaves both controllers as they are: the byte
  that \<^verbatim>\<open>Controller.read()\<close> contributes is a function of the controller state, so a
  second read of \<^verbatim>\<open>$4016\<close> returns the same byte, and a second read of \<^verbatim>\<open>$4017\<close>
  returns the same byte apart from bits 3 and 4, which are the Zapper's and come from
  the PPU. Across one executed instruction that starts with both read flags clear, each
  controller is the old one with the strobes written during the instruction replayed,
  clocked once if and only if its port was read during the instruction; both flags are
  clear again afterwards; the shift position grows by at most one.
\<close>

theorem controller_clocked_once_per_instruction:
  "controller1 (snd (CPU_cpuRead d a s)) = controller1 s \<and>
   controller2 (snd (CPU_cpuRead d a s)) = controller2 s \<and>
   fst (CPU_cpuRead d 0x4016 (snd (CPU_cpuRead d 0x4016 s))) = fst (CPU_cpuRead d 0x4016 s) \<and>
   fst (CPU_cpuRead d 0x4017 (snd (CPU_cpuRead d 0x4017 s))) AND 0xE7 =
     fst (CPU_cpuRead d 0x4017 s) AND 0xE7 \<and>
   (\<not> controller1Read s \<and> \<not> controller2Read s \<longrightarrow>
      busLog (snd (CPU_emulate d s)) = busLog s @ new_accesses s (snd (CPU_emulate d s)) \<and>
      controller1 (snd (CPU_emulate d s)) =
        (if BusRead 0x4016 \<in> set (new_accesses s (snd (CPU_emulate d s)))
         then Controller_clock
                (replay_strobes (new_accesses s (snd (CPU_emulate d s))) (controller1 s))
         else replay_strobes (new_accesses s (snd (CPU_emulate d s))) (controller1 s)) \<and>
      controller2 (snd (CPU_emulate d s)) =
        (if BusRead 0x4017 \<in> set (new_accesses s (snd (CPU_emulate d s)))
         then Controller_clock
                (replay_strobes (new_accesses s (snd (CPU_emulate d s))) (controller2 s))
         else replay_strobes (new_accesses s (snd (CPU_emulate d s))) (controller2 s)) \<and>
      \<not> controller1Read (snd (CPU_emulate d s)) \<and>
      \<not> controller2Read (snd (CPU_emulate d s)) \<and>
      (0 \<le> shiftRegister (controller1 s) \<longrightarrow>
         shiftRegister (controller1 (snd (CPU_emulate d s))) \<le> shiftRegister (controller1 s) + 1) \<and>
      (0 \<le> shiftRegister (controller2 s) \<longrightarrow>
         shiftRegister (controller2 (snd (CPU_emulate d s))) \<le> shiftRegister (controller2 s) + 1))"
proof (intro conjI impI)
  show "controller1 (snd (CPU_cpuRead d a s)) = controller1 s"
    "controller2 (snd (CPU_cpuRead d a s)) = controller2 s"
    by (simp_all add: cpuRead_keeps_controllers)
  show "fst (CPU_cpuRead d 0x4016 (snd (CPU_cpuRead d 0x4016 s))) = fst (CPU_cpuRead d 0x4016 s)"
    by (simp add: cpuRead_port1 cpuRead_keeps_controllers)
  show "fst (CPU_cpuRead d 0x4017 (snd (CPU_cpuRead d 0x4017 s))) AND 0xE7 =
     fst (CPU_cpuRead d 0x4017 s) AND 0xE7"
    by (simp add: cpuRead_port2 cpuRead_keeps_controllers)
next
  assume a: "\<not> controller1Read s \<and> \<not> controller2Read s"
  let ?s' = "snd (CPU_emulate d s)"
  from emulate_controllers[of s d] a obtain l where l: "busLog ?s' = busLog s @ l"
    "controller1 ?s' =
       (if BusRead 0x4016 \<in> set l then Controller_clock (replay_strobes l (controller1 s))
        else replay_strobes l (controller1 s))"
    "controller2 ?s' =
       (if BusRead 0x4017 \<in> set l then Controller_clock (replay_strobes l (controller2 s))
        else replay_strobes l (controller2 s))"
    "\<not> controller1Read ?s'" "\<not> controller2Read ?s'"
    by blast
  have n: "new_accesses s ?s' = l"
    by (simp add: new_accesses_def l(1))
  show "busLog ?s' = busLog s @ new_accesses s ?s'"
    by (simp add: n l(1))
  show "controller1 ?s' =
        (if BusRead 0x4016 \<in> set (new_accesses s ?s')
         then Controller_clock (replay_strobes (new_accesses s ?s') (controller1 s))
         else replay_strobes (new_accesses s ?s') (controller1 s))"
    unfolding n by (rule l(2))
  show "controller2 ?s' =
        (if BusRead 0x4017 \<in> set (new_accesses s ?s')
         then Controller_clock (replay_strobes (new_accesses s ?s') (controller2 s))
         else replay_strobes (new_accesses s ?s') (controller2 s))"
    unfolding n by (rule l(3))
  show "\<not> controller1Read ?s'" "\<not> controller2Read ?s'"
    by (rule l(4), rule l(5))
  {
    assume p: "0 \<le> shiftRegister (controller1 s)"
    from replay_strobes_shift[OF p, of l] Controller_clock_shift[of "replay_strobes l (controller1 s)"]
    show "shiftRegister (controller1 ?s') \<le> shiftRegister (controller1 s) + 1"
      by (simp add: l(2))
  }
  {
    assume p: "0 \<le> shiftRegister (controller2 s)"
    from replay_strobes_shift[OF p, of l] Controller_clock_shift[of "replay_strobes l (controller2 s)"]
    show "shiftRegister (controller2 ?s') \<le> shiftRegister (controller2 s) + 1"
      by (simp add: l(3))
  }
qed

theorem controller_clocked_once_per_instruction_witness:
  "\<not> controller1Read pad_latched \<and> \<not> controller2Read pad_latched \<and>
   0 \<le> shiftRegister (controller1 pad_latched) \<and>
   0 \<le> shiftRegister (controller2 pad_latched) \<and>
   new_accesses pad_latched
     (snd (CPU_emulate (flat_devices (program 0xAD 0x16 0x40)) pad_latched)) =
     [BusRead 0x8000, BusRead 0x8001, BusRead 0x8002, BusRead 0x4016] \<and>
   REG_ACC (snd (CPU_emulate (flat_devices (program 0xAD 0x16 0x40)) pad_latched)) = 0x41 \<and>
   shiftRegister (controller1 pad_latched) = 0 \<and>
   shiftRegister
     (controller1 (snd (CPU_emulate (flat_devices (program 0xAD 0x16 0x40)) pad_latched))) = 1 \<and>
   shiftRegister
     (controller2 (snd (CPU_emulate (flat_devices (program 0xAD 0x16 0x40)) pad_latched))) = 0 \<and>
   shiftRegister
     (controller1 (snd (CPU_emulate (flat_devices (program 0xEA 0xEA 0xEA)) pad_latched))) = 0"
proof -
  have e: "\<not> controller1Read pad_latched" "\<not> controller2Read pad_latched"
    "shiftRegister (controller1 pad_latched) = 0" "shiftRegister (controller2 pad_latched) = 0"
    "new_accesses pad_latched
       (snd (CPU_emulate (flat_devices (program 0xAD 0x16 0x40)) pad_latched)) =
       [BusRead 0x8000, BusRead 0x8001, BusRead 0x8002, BusRead 0x4016]"
    "REG_ACC (snd (CPU_emulate (flat_devices (program 0xAD 0x16 0x40)) pad_latched)) = 0x41"
    "shiftRegister
       (controller1 (snd (CPU_emulate (flat_devices (program 0xAD 0x16 0x40)) pad_latched))) = 1"
    "shiftRegister
       (controller2 (snd (CPU_emulate (flat_devices (program 0xAD 0x16 0x40)) pad_latched))) = 0"
    "shiftRegister
       (controller1 (snd (CPU_emulate (flat_devices (program 0xEA 0xEA 0xEA)) pad_latched))) = 0"
    by code_simp+
  show ?thesis
    using e controller_clocked_once_per_instruction
              [of "flat_devices (program 0xAD 0x16 0x40)" "0x4016" pad_latched]
    by simp
qed

section \<open>CPU: the page-cross cycle\<close>

lemma busLog_cpuRead: "busLog (snd (CPU_cpuRead d a s)) = busLog s @ [BusRead a]"
  by (simp add: CPU_cpuRead_def Let_def split_def)

text \<open>
  The indexed modes: when the index carries into the high byte, one page-cross cycle is
  noted and the address made of the old page and the new low byte is read; otherwise
  nothing is read.
\<close>

lemma indexed_dummy_read:
  "fst (indexed d i a s) = a + i \<and>
   fst (snd (indexed d i a s)) = (if (a AND 0xff00) \<noteq> ((a + i) AND 0xff00) then 1 else 0) \<and>
   busLog (snd (snd (indexed d i a s))) =
     (if (a AND 0xff00) \<noteq> ((a + i) AND 0xff00)
      then busLog s @ [BusRead ((a AND 0xff00) OR ((a + i) AND 0xff))] else busLog s)"
  by (simp add: indexed_def busLog_cpuRead)

lemma addressing_indexed_modes:
  "addressing d 8 opaddr s =
     indexed d (REG_X (snd (CPU_cpuRead16bit d (opaddr + 1) s)))
       (fst (CPU_cpuRead16bit d (opaddr + 1) s)) (snd (CPU_cpuRead16bit d (opaddr + 1) s))"
  "addressing d 9 opaddr s =
     indexed d (REG_Y (snd (CPU_cpuRead16bit d (opaddr + 1) s)))
       (fst (CPU_cpuRead16bit d (opaddr + 1) s)) (snd (CPU_cpuRead16bit d (opaddr + 1) s))"
  by (simp_all add: addressing_def Let_def split_def)

lemma addressing_other_modes_no_page_cross:
  "m \<noteq> 8 \<Longrightarrow> m \<noteq> 9 \<Longrightarrow> m \<noteq> 11 \<Longrightarrow> fst (snd (addressing d m opaddr s)) = 0"
  by (simp add: addressing_def Let_def split_def)

lemma execute_branch_cycles:
  "i \<notin> {3, 4, 5, 7, 8, 9, 11, 12} \<Longrightarrow> fst (execute d i m a s) = 0"
  by (simp add: execute_def Let_def split_def)

text \<open>
  The policy as the interpreter applies it, by instruction id: an instruction whose id
  is in \<^verbatim>\<open>readInstructionsWithPenalty\<close> takes its base cycles plus the page-cross
  cycles of its addressing mode; a store (ids 47, 48, 49, 61) or a read-modify-write
  instruction (ids 2, 20, 24, 32, 39, 40 and 62 to 67) takes its base cycles.
\<close>

lemma penalty_by_instruction_id:
  assumes "opinf AND 0xff \<in> set readInstructionsWithPenalty"
  shows "fst (run_decoded d opaddr opinf s) =
           drop_bit 24 opinf +
           fst (snd (addressing d (drop_bit 8 opinf AND 0xff) opaddr
                  (s\<lparr>cycleOffset := drop_bit 24 opinf - 1,
                      REG_PC := (REG_PC s + (drop_bit 16 opinf AND 0xff)) AND 0xffff\<rparr>)))"
proof -
  have "opinf AND 0xff \<notin> {3, 4, 5, 7, 8, 9, 11, 12}"
    using assms by (auto simp: readInstructionsWithPenalty_def)
  then show ?thesis
    using assms by (simp add: run_decoded_def Let_def split_def execute_branch_cycles)
qed

lemma no_penalty_for_stores_and_rmw:
  assumes "opinf AND 0xff \<in> {2, 20, 24, 32, 39, 40, 47, 48, 49, 61, 62, 63, 64, 65, 66, 67}"
  shows "fst (run_decoded d opaddr opinf s) = drop_bit 24 opinf"
proof -
  have "opinf AND 0xff \<notin> {3, 4, 5, 7, 8, 9, 11, 12}"
    "opinf AND 0xff \<notin> set readInstructionsWithPenalty"
    using assms by (auto simp: readInstructionsWithPenalty_def)
  then show ?thesis
    by (simp add: run_decoded_def Let_def split_def execute_branch_cycles)
qed

text \<open>
  The opcodes whose table entry combines an id of the penalty list with an indexed
  mode. The opcodes of LAX with these modes, \<^verbatim>\<open>$B3\<close> and \<^verbatim>\<open>$BF\<close>, are not among
  them: the table gives the LAX opcodes the id 57, while the penalty list and the
  instruction switch take 60 for LAX. The table gives the id 60 to \<^verbatim>\<open>$F3\<close>, \<^verbatim>\<open>$FB\<close>
  and \<^verbatim>\<open>$FF\<close>, the opcodes of the read-modify-write instruction ISC.
\<close>

lemma opcodes_with_penalty:
  "filter (\<lambda>op. (OPDATA ! op) AND 0xff \<in> set readInstructionsWithPenalty \<and>
                 drop_bit 8 (OPDATA ! op) AND 0xff \<in> {8, 9, 11}) [0..<256] =
     [0x11, 0x19, 0x1D, 0x31, 0x39, 0x3D, 0x51, 0x59, 0x5D, 0x71, 0x79, 0x7D, 0xB1, 0xB9,
      0xBC, 0xBD, 0xBE, 0xD1, 0xD9, 0xDD, 0xF1, 0xF3, 0xF9, 0xFB, 0xFD, 0xFF]"
  by code_simp

text \<open>
  Claim C3. The claim says that each of ADC, AND, CMP, EOR, LDA, LDX, LDY, ORA, SBC and
  LAX, executed with Absolute,X, Absolute,Y or (d),Y addressing across a page boundary,
  takes one cycle more than its base count and reads the pre-fixup address, and that a
  store or a read-modify-write instruction never takes that cycle. Evaluated on the
  code: LAX \<^verbatim>\<open>$80FF,Y\<close> with \<open>Y = 1\<close> (bytes \<^verbatim>\<open>BF FF 80\<close>) crosses into page
  \<^verbatim>\<open>$81\<close>, reads the pre-fixup address \<^verbatim>\<open>$8000\<close> and then \<^verbatim>\<open>$8100\<close>, and returns 4
  cycles, its base count, leaving X as it was; LDA \<^verbatim>\<open>$80FF,Y\<close> (bytes
  \<^verbatim>\<open>B9 FF 80\<close>) in the same state returns 5; ISC \<^verbatim>\<open>$80FF,X\<close> with \<open>X = 1\<close> (bytes
  \<^verbatim>\<open>FF FF 80\<close>), whose base count is 7, returns 8 and writes nothing.
\<close>

theorem lax_opcode_takes_no_page_cross_cycle:
  "js_num (js_index OPDATA 0xBF) AND 0xff = 57 \<and>
   drop_bit 8 (js_num (js_index OPDATA 0xBF)) AND 0xff = ABSY \<and>
   drop_bit 24 (js_num (js_index OPDATA 0xBF)) = 4 \<and>
   57 \<notin> set readInstructionsWithPenalty \<and>
   fst (CPU_emulate (flat_devices (program 0xBF 0xFF 0x80)) (at_8000\<lparr>REG_Y := 1\<rparr>)) = 4 \<and>
   new_accesses (at_8000\<lparr>REG_Y := 1\<rparr>)
     (snd (CPU_emulate (flat_devices (program 0xBF 0xFF 0x80)) (at_8000\<lparr>REG_Y := 1\<rparr>))) =
     [BusRead 0x8000, BusRead 0x8001, BusRead 0x8002, BusRead 0x8000, BusRead 0x8100] \<and>
   REG_X (snd (CPU_emulate (flat_devices (program 0xBF 0xFF 0x80)) (at_8000\<lparr>REG_Y := 1\<rparr>))) = 0 \<and>
   fst (CPU_emulate (flat_devices (program 0xB9 0xFF 0x80)) (at_8000\<lparr>REG_Y := 1\<rparr>)) = 5 \<and>
   js_num (js_index OPDATA 0xFF) AND 0xff = 60 \<and>
   drop_bit 8 (js_num (js_index OPDATA 0xFF)) AND 0xff = ABSX \<and>
   drop_bit 24 (js_num (js_index OPDATA 0xFF)) = 7 \<and>
   fst (CPU_emulate (flat_devices (program 0xFF 0xFF 0x80)) (at_8000\<lparr>REG_X := 1\<rparr>)) = 8 \<and>
   new_accesses (at_8000\<lparr>REG_X := 1\<rparr>)
     (snd (CPU_emulate (flat_devices (program 0xFF 0xFF 0x80)) (at_8000\<lparr>REG_X := 1\<rparr>))) =
     [BusRead 0x8000, BusRead 0x8001, BusRead 0x8002, BusRead 0x8000, BusRead 0x8100]"
  by code_simp

end
